theory Spec2Isabelle
  imports
    Complex_Main
    "HOL-Library.Word"
    "HOL-Library.Multiset"
    "HOL-Library.Char_ord"
    "HOL-Library.List_Lexorder"
    "HOL-Library.Sublist"
begin

section \<open>Data model (search.go, store.go)\<close>

text \<open>
  Go strings and byte slices are lists of bytes (\<open>string = char list\<close>); \<open>len\<close> counts
  bytes and string comparison is bytewise lexicographic, which is the order of
  \<open>List_Lexorder\<close> over \<open>Char_ord\<close>. A nil slice is the empty list. Go \<open>int\<close> is \<open>int\<close>;
  the one sum that can leave the 64-bit range is wrapped explicitly (\<open>int64\<close> below).
  A \<open>float32\<close> is its IEEE 754 bit pattern. A \<open>time.Time\<close> is an instant, counted in
  nanoseconds from the Unix epoch.
\<close>

type_synonym float32 = "32 word"
type_synonym Time = int

definition int64 :: "int \<Rightarrow> int" where
  "int64 x = sint (word_of_int x :: 64 word)"

definition int32 :: "int \<Rightarrow> int" where
  "int32 x = sint (word_of_int x :: 32 word)"

record FileMetadata =
  FilePath :: string
  LastModified :: Time

record IndexEntry =
  SessionID :: string
  MsgIndex :: int
  Role :: string
  Timestamp :: string
  Preview :: string
  FilePath :: string
  Vector :: "float32 list"

text \<open>\<open>Files\<close> is a Go map; \<open>None\<close> is the nil map.\<close>

record Index =
  Entries :: "IndexEntry list"
  Files :: "(string \<rightharpoonup> FileMetadata) option"
  Project :: string

record SearchStats =
  FilesTotal :: int
  PrefilterSkipped :: int
  RegexSearched :: int

record SearchOpts =
  Role :: string
  MaxResults :: int
  MaxDays :: int
  Before :: int
  After :: int
  ListOnly :: bool

record Message =
  Role :: string
  Type :: string
  Text :: string
  Timestamp :: string
  SessionID :: string
  Project :: string
  FilePath :: string
  MsgIndex :: int

record Match =
  Message :: Message
  ContextBefore :: "Message list"
  ContextAfter :: "Message list"
  Similarity :: float32

text \<open>What \<open>os.FileInfo\<close> tells \<open>findSessionFiles\<close>.\<close>

record FileInfo =
  IsDir :: bool
  ModTime :: Time

datatype error = CompileError | WalkError | SliceBoundsPanic

section \<open>The Go standard library and the operating system, as parameters\<close>

text \<open>
  A JSON text as \<open>encoding/json\<close> reads it. An object keeps its members in document
  order; a \<open>json.RawMessage\<close> is the subtree it holds.
\<close>

datatype json =
    JNull
  | JBool bool
  | JNumber string
  | JString string
  | JArray "json list"
  | JObject "(string \<times> json) list"

text \<open>
  The library functions the repository calls and does not define:
  \<^item> \<open>jsonDecode\<close>: the parser of \<open>encoding/json\<close> (\<open>None\<close> for a syntax error);
  \<^item> \<open>unicodeLower\<close>: \<open>Map(unicode.ToLower, s)\<close>, the branch \<open>ToLower\<close> takes on input
    that is not pure ASCII;
  \<^item> \<open>filepathBase\<close>, \<open>filepathExt\<close>, \<open>filepathDir\<close>, \<open>filepathJoin\<close>: \<open>path/filepath\<close>;
  \<^item> \<open>regexpCompile\<close>: \<open>regexp.Compile\<close>, giving the compiled pattern's \<open>MatchString\<close>
    (\<open>None\<close> for a pattern that does not compile);
  \<^item> \<open>addDate\<close>: \<open>Time.AddDate\<close>; \<open>timeParse layout value\<close>: \<open>time.Parse\<close> (\<open>None\<close> for an
    error);
  \<^item> \<open>gobDecode b idx\<close>: \<open>gob.NewDecoder(f).Decode(idx)\<close> on a file holding \<open>b\<close>; it gives
    whether an error came back and what \<open>idx\<close> points to afterwards (a failed decode
    may have written part of it);
  \<^item> \<open>sortSlice lt xs\<close>: \<open>sort.Slice\<close> of \<open>xs\<close> with \<open>lt\<close> as its \<open>less\<close>.
\<close>

record GoLib =
  jsonDecode :: "string \<Rightarrow> json option"
  unicodeLower :: "string \<Rightarrow> string"
  filepathBase :: "string \<Rightarrow> string"
  filepathExt :: "string \<Rightarrow> string"
  filepathDir :: "string \<Rightarrow> string"
  filepathJoin :: "string list \<Rightarrow> string"
  regexpCompile :: "string \<Rightarrow> (string \<Rightarrow> bool) option"
  addDate :: "Time \<Rightarrow> int \<Rightarrow> int \<Rightarrow> int \<Rightarrow> Time"
  gobDecode :: "string \<Rightarrow> Index \<Rightarrow> bool \<times> Index"
  sortSlice :: "(Match \<Rightarrow> Match \<Rightarrow> bool) \<Rightarrow> Match list \<Rightarrow> Match list"
  timeParse :: "string \<Rightarrow> string \<Rightarrow> Time option"

text \<open>
  The state of the machine one call runs against:
  \<^item> \<open>walk root\<close>: what \<open>filepath.Walk\<close> hands its callback, in order: each path with its
    \<open>FileInfo\<close>, or \<open>None\<close> where the callback gets an error;
  \<^item> \<open>readFile\<close>: \<open>os.ReadFile\<close> and \<open>os.Open\<close> (\<open>None\<close> for an error);
  \<^item> \<open>now\<close>: \<open>time.Now()\<close>; \<open>userHomeDir\<close>: \<open>os.UserHomeDir()\<close>;
  \<^item> \<open>arrival\<close>: the order in which the results the workers sent on the channel are
    received, as a rearrangement of the list of per-file results in file order.
\<close>

record World =
  walk :: "string \<Rightarrow> (string \<times> FileInfo option) list"
  readFile :: "string \<Rightarrow> string option"
  now :: Time
  userHomeDir :: string
  arrival :: "Match list list \<Rightarrow> Match list list"

section \<open>Strings and bytes (package strings, package bytes)\<close>

definition isASCII :: "char \<Rightarrow> bool" where
  "isASCII c = (of_char c < (128::nat))"

definition lowerByte :: "char \<Rightarrow> char" where
  "lowerByte c = (if CHR ''A'' \<le> c \<and> c \<le> CHR ''Z'' then char_of (of_char c + (32::nat)) else c)"

text \<open>\<open>strings.ToLower\<close> and \<open>bytes.ToLower\<close>: bytewise on pure ASCII, by runes otherwise.\<close>

definition ToLower :: "GoLib \<Rightarrow> string \<Rightarrow> string" where
  "ToLower lib s = (if list_all isASCII s then map lowerByte s else unicodeLower lib s)"

fun HasPrefix :: "string \<Rightarrow> string \<Rightarrow> bool" where
  "HasPrefix s [] = True"
| "HasPrefix [] (p # ps) = False"
| "HasPrefix (c # cs) (p # ps) = (c = p \<and> HasPrefix cs ps)"

definition HasSuffix :: "string \<Rightarrow> string \<Rightarrow> bool" where
  "HasSuffix s suf = HasPrefix (rev s) (rev suf)"

definition TrimSuffix :: "string \<Rightarrow> string \<Rightarrow> string" where
  "TrimSuffix s suf = (if HasSuffix s suf then take (length s - length suf) s else s)"

fun Contains :: "string \<Rightarrow> string \<Rightarrow> bool" where
  "Contains [] sub = (sub = [])"
| "Contains (c # cs) sub = (HasPrefix (c # cs) sub \<or> Contains cs sub)"

text \<open>\<open>strings.Trim s cutset\<close> for a cutset of ASCII bytes.\<close>

definition Trim :: "string \<Rightarrow> string \<Rightarrow> string" where
  "Trim s cutset =
     rev (dropWhile (\<lambda>c. c \<in> set cutset) (rev (dropWhile (\<lambda>c. c \<in> set cutset) s)))"

fun Join :: "string list \<Rightarrow> string \<Rightarrow> string" where
  "Join [] sep = []"
| "Join [x] sep = x"
| "Join (x # y # ys) sep = x @ sep @ Join (y # ys) sep"

text \<open>
  \<open>strings.TrimSpace\<close> removes the runes \<open>unicode.IsSpace\<close> accepts from both ends. They
  are the six ASCII bytes below and the runes U+0085, U+00A0, U+1680, U+2000 to U+200A,
  U+2028, U+2029, U+202F, U+205F and U+3000, listed here in UTF-8.
\<close>

definition asciiSpace :: "char \<Rightarrow> bool" where
  "asciiSpace c = (c = CHR 0x09 \<or> c = CHR 0x0A \<or> c = CHR 0x0B \<or> c = CHR 0x0C \<or> c = CHR 0x0D
     \<or> c = CHR 0x20)"

definition unicodeSpaces :: "string list" where
  "unicodeSpaces =
     [[CHR 0xC2, CHR 0x85], [CHR 0xC2, CHR 0xA0], [CHR 0xE1, CHR 0x9A, CHR 0x80],
      [CHR 0xE2, CHR 0x80, CHR 0x80], [CHR 0xE2, CHR 0x80, CHR 0x81],
      [CHR 0xE2, CHR 0x80, CHR 0x82], [CHR 0xE2, CHR 0x80, CHR 0x83],
      [CHR 0xE2, CHR 0x80, CHR 0x84], [CHR 0xE2, CHR 0x80, CHR 0x85],
      [CHR 0xE2, CHR 0x80, CHR 0x86], [CHR 0xE2, CHR 0x80, CHR 0x87],
      [CHR 0xE2, CHR 0x80, CHR 0x88], [CHR 0xE2, CHR 0x80, CHR 0x89],
      [CHR 0xE2, CHR 0x80, CHR 0x8A], [CHR 0xE2, CHR 0x80, CHR 0xA8],
      [CHR 0xE2, CHR 0x80, CHR 0xA9], [CHR 0xE2, CHR 0x80, CHR 0xAF],
      [CHR 0xE2, CHR 0x81, CHR 0x9F], [CHR 0xE3, CHR 0x80, CHR 0x80]]"

text \<open>The length of the space rune \<open>s\<close> starts with, \<open>0\<close> when it starts with none.\<close>

definition spaceWidth :: "string list \<Rightarrow> string \<Rightarrow> nat" where
  "spaceWidth spaces s =
     (case s of [] \<Rightarrow> 0
      | c # cs \<Rightarrow> if asciiSpace c then 1
                 else (case filter (HasPrefix s) spaces of [] \<Rightarrow> 0 | u # us \<Rightarrow> length u))"

function trimLeftSpaces :: "string list \<Rightarrow> string \<Rightarrow> string" where
  "trimLeftSpaces spaces s =
     (if spaceWidth spaces s = 0 \<or> s = [] then s
      else trimLeftSpaces spaces (drop (spaceWidth spaces s) s))"
  by pat_completeness auto
termination
  by (relation "measure (\<lambda>(spaces, s). length s)") auto

declare trimLeftSpaces.simps [simp del]

definition TrimSpace :: "string \<Rightarrow> string" where
  "TrimSpace s =
     rev (trimLeftSpaces (map rev unicodeSpaces) (rev (trimLeftSpaces unicodeSpaces s)))"

text \<open>\<open>bytes.Split data sep\<close> for the one-byte separator \<open>sep\<close>; \<open>cur\<close> is the piece so far.\<close>

fun splitByte :: "char \<Rightarrow> string \<Rightarrow> string \<Rightarrow> string list" where
  "splitByte sep cur [] = [cur]"
| "splitByte sep cur (c # cs) =
     (if c = sep then cur # splitByte sep [] cs else splitByte sep (cur @ [c]) cs)"

definition bytesSplit :: "string \<Rightarrow> string list" where
  "bytesSplit data = splitByte (CHR 0x0A) [] data"

section \<open>The literal prefilter (search.go)\<close>

definition isRegexMeta :: "char \<Rightarrow> bool" where
  "isRegexMeta c =
     (c = CHR ''.'' \<or> c = CHR ''+'' \<or> c = CHR ''*'' \<or> c = CHR ''?'' \<or>
      c = CHR ''^'' \<or> c = CHR ''$'' \<or> c = CHR ''{'' \<or> c = CHR ''}'' \<or>
      c = CHR ''['' \<or> c = CHR '']'' \<or> c = CHR ''('' \<or> c = CHR '')'' \<or>
      c = CHR ''|'' \<or> c = CHR 0x5C)"

text \<open>
  The loop of \<open>longestLiteral\<close>, with \<open>best\<close> and \<open>current\<close> as arguments. A backslash that is
  not the last byte puts the byte after it into the current run.
\<close>

fun longestLoop :: "string \<Rightarrow> string \<Rightarrow> string \<Rightarrow> string" where
  "longestLoop best current [] =
     (if length current > length best then current else best)"
| "longestLoop best current [c] =
     (if isRegexMeta c
      then longestLoop (if length current > length best then current else best) [] []
      else longestLoop best (current @ [c]) [])"
| "longestLoop best current (c # d # cs) =
     (if c = CHR 0x5C then longestLoop best (current @ [d]) cs
      else if isRegexMeta c
      then longestLoop (if length current > length best then current else best) [] (d # cs)
      else longestLoop best (current @ [c]) (d # cs))"

definition longestLiteral :: "string \<Rightarrow> string" where
  "longestLiteral s = longestLoop [] [] s"

text \<open>
  The scan of \<open>stripOuterGroup\<close>: whether the depth comes back to \<open>0\<close> before the last byte.
\<close>

fun closesEarly :: "int \<Rightarrow> string \<Rightarrow> bool" where
  "closesEarly depth [] = False"
| "closesEarly depth (c # cs) =
     (let depth' = (if c = CHR ''('' then depth + 1
                    else if c = CHR '')'' then depth - 1 else depth)
      in if depth' = 0 \<and> cs \<noteq> [] then True else closesEarly depth' cs)"

fun stripPrefixes :: "string list \<Rightarrow> string \<Rightarrow> string" where
  "stripPrefixes [] inner = inner"
| "stripPrefixes (p # rest) inner =
     (if HasPrefix inner p then drop (length p) inner else stripPrefixes rest inner)"

definition stripOuterGroup :: "string \<Rightarrow> string" where
  "stripOuterGroup s =
     (if length s < 2 \<or> hd s \<noteq> CHR ''('' \<or> last s \<noteq> CHR '')'' then s
      else if closesEarly 0 s then s
      else stripPrefixes [''?:'', ''?i:'', ''?i''] (butlast (tl s)))"

text \<open>
  The loop of \<open>splitTopLevelPipe\<close>; \<open>cur\<close> is \<open>s[start:i]\<close>, the part since the last split.
\<close>

fun splitLoop :: "int \<Rightarrow> string \<Rightarrow> string \<Rightarrow> string list" where
  "splitLoop depth cur [] = [cur]"
| "splitLoop depth cur (c # cs) =
     (if c = CHR ''('' then splitLoop (depth + 1) (cur @ [c]) cs
      else if c = CHR '')'' then splitLoop (if depth > 0 then depth - 1 else depth) (cur @ [c]) cs
      else if c = CHR ''|'' \<and> depth = 0 then cur # splitLoop depth [] cs
      else splitLoop depth (cur @ [c]) cs)"

definition splitTopLevelPipe :: "string \<Rightarrow> string list" where
  "splitTopLevelPipe s = splitLoop 0 [] s"

text \<open>
  The loop of \<open>extractPrefilterLiterals\<close> over the parts, \<open>literals\<close> as argument; the
  result \<open>[]\<close> is Go's \<open>nil\<close> (prefilter disabled).
\<close>

fun literalsLoop :: "GoLib \<Rightarrow> string list \<Rightarrow> string list \<Rightarrow> string list" where
  "literalsLoop lib [] literals = literals"
| "literalsLoop lib (part # parts) literals =
     (let lit = longestLiteral (Trim part ''()'')
      in if lit = [] then []
         else literalsLoop lib parts (literals @ [ToLower lib lit]))"

definition extractPrefilterLiterals :: "GoLib \<Rightarrow> string \<Rightarrow> string list" where
  "extractPrefilterLiterals lib pattern =
     (let p = stripOuterGroup pattern;
          parts = splitTopLevelPipe p;
          literals = literalsLoop lib parts []
      in if length literals = 0 then [] else literals)"

definition prefilterMatch :: "GoLib \<Rightarrow> string \<Rightarrow> string list \<Rightarrow> bool" where
  "prefilterMatch lib data literals =
     (if length literals = 0 then True
      else let lower = ToLower lib data in list_ex (\<lambda>lit. Contains lower lit) literals)"

section \<open>Decoding JSON into Go values (json.Unmarshal)\<close>

text \<open>
  \<open>json.Unmarshal\<close> into a nil \<open>map[string]json.RawMessage\<close>: whether it returns an error,
  and the map afterwards (\<open>None\<close> is nil). An object fills the map, a later member
  replacing an earlier one of the same name; \<open>null\<close> leaves nil without an error; any
  other value is a type error.
\<close>

fun unmarshalMap :: "json \<Rightarrow> bool \<times> (string \<rightharpoonup> json) option" where
  "unmarshalMap (JObject kvs) = (False, Some (map_of (rev kvs)))"
| "unmarshalMap JNull = (False, None)"
| "unmarshalMap j = (True, None)"

text \<open>Indexing a map that may be nil: \<open>v, ok := m[k]\<close>.\<close>

fun mapIndex :: "(string \<rightharpoonup> json) option \<Rightarrow> string \<Rightarrow> json option" where
  "mapIndex None k = None"
| "mapIndex (Some m) k = m k"

text \<open>
  \<open>json.Unmarshal\<close> into a \<open>string\<close> holding \<open>cur\<close>: \<open>null\<close> and a type error both leave it as
  it was.
\<close>

fun unmarshalString :: "json \<Rightarrow> string \<Rightarrow> bool \<times> string" where
  "unmarshalString (JString s) cur = (False, s)"
| "unmarshalString JNull cur = (False, cur)"
| "unmarshalString j cur = (True, cur)"

text \<open>
  \<open>json.Unmarshal\<close> into a nil \<open>[]map[string]json.RawMessage\<close>: an element that is
  neither an object nor \<open>null\<close> is a type error of the whole call.
\<close>

fun unmarshalBlocks :: "json \<Rightarrow> bool \<times> (string \<rightharpoonup> json) option list" where
  "unmarshalBlocks (JArray js) =
     (list_ex (\<lambda>j. fst (unmarshalMap j)) js, map (\<lambda>j. snd (unmarshalMap j)) js)"
| "unmarshalBlocks JNull = (False, [])"
| "unmarshalBlocks j = (True, [])"

section \<open>The transcript parser (search.go)\<close>

text \<open>The loop of \<open>extractText\<close> over the content blocks.\<close>

fun blockTexts :: "(string \<rightharpoonup> json) option list \<Rightarrow> string list" where
  "blockTexts [] = []"
| "blockTexts (block # blocks) =
     (let blockType = (case mapIndex block ''type'' of
                         Some t \<Rightarrow> snd (unmarshalString t []) | None \<Rightarrow> [])
      in if blockType \<noteq> ''text'' then blockTexts blocks
         else let text = (case mapIndex block ''text'' of
                            Some t \<Rightarrow> snd (unmarshalString t []) | None \<Rightarrow> [])
              in if text \<noteq> [] then text # blockTexts blocks else blockTexts blocks)"

definition extractText :: "(string \<rightharpoonup> json) option \<Rightarrow> string" where
  "extractText raw =
     (let msgObj =
        (case mapIndex raw ''message'' of
           None \<Rightarrow> None
         | Some m \<Rightarrow>
            (case unmarshalMap m of
               (False, obj) \<Rightarrow> obj
             | (True, obj) \<Rightarrow>
                (case mapIndex raw ''data'' of
                   None \<Rightarrow> obj
                 | Some d \<Rightarrow>
                    (case unmarshalMap d of
                       (True, dataObj) \<Rightarrow> obj
                     | (False, dataObj) \<Rightarrow>
                        (case mapIndex dataObj ''message'' of
                           None \<Rightarrow> obj
                         | Some dm \<Rightarrow> snd (unmarshalMap dm))))))
      in case msgObj of
           None \<Rightarrow> []
         | Some obj \<Rightarrow>
            (case obj ''content'' of
               None \<Rightarrow> []
             | Some contentRaw \<Rightarrow>
                (case unmarshalString contentRaw [] of
                   (False, strContent) \<Rightarrow> TrimSpace strContent
                 | (True, strContent) \<Rightarrow>
                    (case unmarshalBlocks contentRaw of
                       (False, blocks) \<Rightarrow> TrimSpace (Join (blockTexts blocks) '' '')
                     | (True, blocks) \<Rightarrow> []))))"

definition extractSessionID :: "GoLib \<Rightarrow> string \<Rightarrow> string" where
  "extractSessionID lib fpath =
     (let base = filepathBase lib fpath;
          ext = filepathExt lib base;
          ident = TrimSuffix base ext
      in if length ident > 12 then take 12 ident else ident)"

definition extractProject :: "GoLib \<Rightarrow> string \<Rightarrow> string" where
  "extractProject lib fpath = filepathBase lib (filepathDir lib fpath)"

text \<open>
  The body of the loop of \<open>parseJSONL\<close> down to the extracted text: the type, timestamp
  and text of the record a line holds, or \<open>None\<close> where the loop continues with the next
  line (an empty line, a line that is not a JSON object, a type other than \<open>user\<close> and
  \<open>assistant\<close>, an empty text).
\<close>

definition parseLine :: "GoLib \<Rightarrow> string \<Rightarrow> (string \<times> string \<times> string) option" where
  "parseLine lib line =
     (if length line = 0 then None
      else case jsonDecode lib line of
        None \<Rightarrow> None
      | Some j \<Rightarrow>
         (case unmarshalMap j of
            (True, raw) \<Rightarrow> None
          | (False, raw) \<Rightarrow>
             (let msgType = (case mapIndex raw ''type'' of
                               Some t \<Rightarrow> snd (unmarshalString t []) | None \<Rightarrow> [])
              in if msgType \<noteq> ''user'' \<and> msgType \<noteq> ''assistant'' then None
                 else let timestamp =
                            (case mapIndex raw ''timestamp'' of
                               Some ts \<Rightarrow>
                                 (let t = snd (unmarshalString ts [])
                                  in if length t > 19 then take 19 t else t)
                             | None \<Rightarrow> []);
                          text = extractText raw
                      in if text = [] then None else Some (msgType, timestamp, text))))"

definition newMessage :: "GoLib \<Rightarrow> string \<Rightarrow> int \<Rightarrow> string \<times> string \<times> string \<Rightarrow> Message" where
  "newMessage lib fpath idx r =
     (case r of (msgType, timestamp, text) \<Rightarrow>
        \<lparr>Message.Role = msgType, Type = msgType, Text = text, Timestamp = timestamp,
         SessionID = extractSessionID lib fpath, Project = extractProject lib fpath,
         FilePath = fpath, MsgIndex = idx\<rparr>)"

text \<open>
  The loop of \<open>parseJSONL\<close> over the lines, with \<open>messages\<close> and \<open>idx\<close> as arguments: a record
  with the timestamp and role of the last message replaces it, any other is appended.
\<close>

fun parseLoop :: "GoLib \<Rightarrow> string \<Rightarrow> string list \<Rightarrow> Message list \<Rightarrow> int \<Rightarrow> Message list" where
  "parseLoop lib fpath [] messages idx = messages"
| "parseLoop lib fpath (line # lines) messages idx =
     (case parseLine lib line of
        None \<Rightarrow> parseLoop lib fpath lines messages idx
      | Some (msgType, timestamp, text) \<Rightarrow>
         (let msg = newMessage lib fpath idx (msgType, timestamp, text)
          in if length messages > 0
                \<and> Message.Timestamp (last messages) = timestamp
                \<and> Message.Role (last messages) = msgType
             then parseLoop lib fpath lines (butlast messages @ [msg]) idx
             else parseLoop lib fpath lines (messages @ [msg]) (idx + 1)))"

text \<open>The second loop: \<open>messages[i].MsgIndex = i\<close>.\<close>

fun fixMsgIndex :: "int \<Rightarrow> Message list \<Rightarrow> Message list" where
  "fixMsgIndex i [] = []"
| "fixMsgIndex i (m # ms) = m\<lparr>MsgIndex := i\<rparr> # fixMsgIndex (i + 1) ms"

text \<open>\<open>parseJSONL\<close> from the lines on, and \<open>parseJSONL\<close>.\<close>

definition parseLines :: "GoLib \<Rightarrow> string \<Rightarrow> string list \<Rightarrow> Message list" where
  "parseLines lib fpath lines = fixMsgIndex 0 (parseLoop lib fpath lines [] 0)"

definition parseJSONL :: "GoLib \<Rightarrow> string \<Rightarrow> string \<Rightarrow> Message list" where
  "parseJSONL lib fpath data = parseLines lib fpath (bytesSplit data)"

section \<open>The regex search engine (search.go)\<close>

text \<open>\<open>messages[lo:hi]\<close> as the two context loops copy it (\<open>0 \<le> lo\<close>, \<open>hi \<le> len\<close>).\<close>

definition copyRange :: "Message list \<Rightarrow> int \<Rightarrow> int \<Rightarrow> Message list" where
  "copyRange messages lo hi = take (nat (hi - lo)) (drop (nat lo) messages)"

text \<open>
  One round of the loop of \<open>searchFileTracked\<close> over the messages: the match the message
  at \<open>i\<close> adds, if any. \<open>i + opts.After + 1\<close> is a 64-bit sum.
\<close>

definition matchAt :: "(string \<Rightarrow> bool) \<Rightarrow> SearchOpts \<Rightarrow> Message list \<Rightarrow> nat \<Rightarrow> Match list" where
  "matchAt re opts messages i =
     (let msg = messages ! i
      in if SearchOpts.Role opts \<noteq> ''both'' \<and> Type msg \<noteq> SearchOpts.Role opts then []
         else if \<not> re (Text msg) then []
         else [\<lparr>Message = msg,
                ContextBefore =
                  (if Before opts > 0
                   then (let start = int i - Before opts;
                             start = (if start < 0 then 0 else start)
                         in copyRange messages start (int i))
                   else []),
                ContextAfter =
                  (if After opts > 0
                   then (let end = int64 (int i + After opts + 1);
                             end = (if end > int (length messages)
                                    then int (length messages) else end)
                         in copyRange messages (int i + 1) end)
                   else []),
                Similarity = 0\<rparr>])"

definition searchFileTracked ::
  "GoLib \<Rightarrow> World \<Rightarrow> string \<Rightarrow> (string \<Rightarrow> bool) \<Rightarrow> string list \<Rightarrow> SearchOpts \<Rightarrow> Match list \<times> bool"
where
  "searchFileTracked lib world filepath re prefilter opts =
     (case readFile world filepath of
        None \<Rightarrow> ([], False)
      | Some data \<Rightarrow>
         if \<not> prefilterMatch lib data prefilter then ([], True)
         else let messages = parseJSONL lib filepath data
              in if length messages = 0 then ([], False)
                 else (concat (map (matchAt re opts messages) [0 ..< length messages]), False))"

text \<open>
  \<open>findSessionFiles\<close>: the callback returns nil on every path, so \<open>filepath.Walk\<close> does
  too and the error returned is always nil.
\<close>

definition findSessionFiles :: "GoLib \<Rightarrow> World \<Rightarrow> string \<Rightarrow> int \<Rightarrow> string list \<times> error option" where
  "findSessionFiles lib world searchPath maxDays =
     (let cutoff = addDate lib (now world) 0 0 (int64 (- maxDays))
      in (map fst
            (filter (\<lambda>(path, info).
                       case info of
                         None \<Rightarrow> False
                       | Some fi \<Rightarrow> \<not> IsDir fi \<and> HasSuffix path ''.jsonl'' \<and> \<not> ModTime fi < cutoff)
               (walk world searchPath)),
          None))"

text \<open>The \<open>less\<close> handed to \<open>sort.Slice\<close>.\<close>

definition newerFirst :: "Match \<Rightarrow> Match \<Rightarrow> bool" where
  "newerFirst a b = (Timestamp (Message a) > Timestamp (Message b))"

text \<open>
  \<open>regexSearch\<close>. Each worker sends its file's matches when there are any; the main
  goroutine appends what it receives, in the order \<open>arrival\<close> gives, then sorts and cuts.
  \<open>allMatches[:opts.MaxResults]\<close> panics for a negative bound. \<open>pfSkipped\<close> is an
  \<open>int32\<close> counter.
\<close>

definition regexSearch ::
  "GoLib \<Rightarrow> World \<Rightarrow> string \<Rightarrow> string \<Rightarrow> SearchOpts \<Rightarrow> error + Match list \<times> SearchStats"
where
  "regexSearch lib world pattern searchPath opts =
     (case regexpCompile lib (''(?i)'' @ pattern) of
        None \<Rightarrow> Inl CompileError
      | Some re \<Rightarrow>
         (case findSessionFiles lib world searchPath (MaxDays opts) of
            (files, Some err) \<Rightarrow> Inl err
          | (files, None) \<Rightarrow>
             (let prefilterLiterals = extractPrefilterLiterals lib pattern;
                  results = map (\<lambda>fp. searchFileTracked lib world fp re prefilterLiterals opts) files;
                  pfSkipped = int32 (int (length (filter snd results)));
                  sent = filter (\<lambda>matches. length matches > 0) (map fst results);
                  allMatches = concat (arrival world sent);
                  allMatches = sortSlice lib newerFirst allMatches;
                  stats = \<lparr>FilesTotal = int (length files), PrefilterSkipped = pfSkipped,
                           RegexSearched = int (length files) - pfSkipped\<rparr>
              in if int (length allMatches) > MaxResults opts
                 then (if MaxResults opts < 0 then Inl SliceBoundsPanic
                       else Inr (take (nat (MaxResults opts)) allMatches, stats))
                 else Inr (allMatches, stats))))"

text \<open>
  What \<open>sort.Slice\<close> promises for \<open>newerFirst\<close>: the same elements, none before one that
  is less than it. (It does not promise to keep equal elements in their order.)
\<close>

definition sortsMatches :: "GoLib \<Rightarrow> bool" where
  "sortsMatches lib =
     (\<forall>xs. mset (sortSlice lib newerFirst xs) = mset xs
         \<and> sorted_wrt (\<lambda>a b. \<not> newerFirst b a) (sortSlice lib newerFirst xs))"

text \<open>What the channel promises: every result sent is received once.\<close>

definition deliversAll :: "World \<Rightarrow> bool" where
  "deliversAll world = (\<forall>rs. mset (arrival world rs) = mset rs)"

text \<open>
  \<open>insertionSortLessFunc\<close> of package sort, which is all \<open>sort.Slice\<close> runs on a slice of at
  most 12 elements: each element in turn is swapped leftwards while it is less than its
  left neighbour. \<open>sinkLeft\<close> takes the sorted part right to left.
\<close>

fun sinkLeft :: "('a \<Rightarrow> 'a \<Rightarrow> bool) \<Rightarrow> 'a \<Rightarrow> 'a list \<Rightarrow> 'a list" where
  "sinkLeft lt x [] = [x]"
| "sinkLeft lt x (y # ys) = (if lt x y then y # sinkLeft lt x ys else x # y # ys)"

definition insertionSort :: "('a \<Rightarrow> 'a \<Rightarrow> bool) \<Rightarrow> 'a list \<Rightarrow> 'a list" where
  "insertionSort lt xs = rev (foldl (\<lambda>left x. sinkLeft lt x left) [] xs)"

section \<open>The vector store (index.go, store.go)\<close>

text \<open>The loop of \<open>removeEntriesForFile\<close>, \<open>kept\<close> as argument.\<close>

fun removeLoop :: "IndexEntry list \<Rightarrow> string \<Rightarrow> IndexEntry list \<Rightarrow> IndexEntry list" where
  "removeLoop [] fpath kept = kept"
| "removeLoop (e # entries) fpath kept =
     removeLoop entries fpath (if IndexEntry.FilePath e \<noteq> fpath then kept @ [e] else kept)"

definition removeEntriesForFile :: "IndexEntry list \<Rightarrow> string \<Rightarrow> IndexEntry list" where
  "removeEntriesForFile entries fpath = removeLoop entries fpath []"

definition indexDir :: "GoLib \<Rightarrow> World \<Rightarrow> string" where
  "indexDir lib world = filepathJoin lib [userHomeDir world, ''.claude'', ''search-index'']"

definition indexPath :: "GoLib \<Rightarrow> World \<Rightarrow> string \<Rightarrow> string" where
  "indexPath lib world project = filepathJoin lib [indexDir lib world, project @ ''.gob'']"

text \<open>\<open>&Index{Files: make(map[string]FileMetadata), Project: project}\<close>.\<close>

definition emptyIndex :: "string \<Rightarrow> Index" where
  "emptyIndex project = \<lparr>Entries = [], Files = Some Map.empty, Index.Project = project\<rparr>"

definition loadIndex :: "GoLib \<Rightarrow> World \<Rightarrow> string \<Rightarrow> Index" where
  "loadIndex lib world project =
     (let idx = emptyIndex project
      in case readFile world (indexPath lib world project) of
           None \<Rightarrow> idx
         | Some stored \<Rightarrow>
            (case gobDecode lib stored idx of
               (True, idx') \<Rightarrow> emptyIndex project
             | (False, idx') \<Rightarrow> idx'))"

section \<open>Semantic search: collecting the candidates (store.go)\<close>

text \<open>
  The comparison \<open>>\<close> on \<open>float32\<close>, on bit patterns: bit 31 is the sign, the low 31 bits
  the magnitude (exponent, then fraction). A magnitude above \<open>0x7F800000\<close> is a NaN,
  which compares false with everything; otherwise the values are ordered as the signed
  magnitudes are, the two zeros being equal.
\<close>

definition negative32 :: "float32 \<Rightarrow> bool" where
  "negative32 x = (uint x \<ge> 2 ^ 31)"

definition magnitude32 :: "float32 \<Rightarrow> int" where
  "magnitude32 x = uint x mod 2 ^ 31"

definition isNaN32 :: "float32 \<Rightarrow> bool" where
  "isNaN32 x = (magnitude32 x > 0x7F800000)"

definition order32 :: "float32 \<Rightarrow> int" where
  "order32 x = (if negative32 x then - magnitude32 x else magnitude32 x)"

definition greater32 :: "float32 \<Rightarrow> float32 \<Rightarrow> bool" where
  "greater32 x y = (\<not> isNaN32 x \<and> \<not> isNaN32 y \<and> order32 x > order32 y)"

text \<open>
  The constant \<open>0.3\<close> of \<open>sim > 0.3\<close>: compared with a \<open>float32\<close>, the untyped constant is
  converted to \<open>float32\<close>, that is, rounded to the nearest one.
\<close>

definition threshold :: float32 where
  "threshold = 0x3E99999A"

text \<open>
  The \<open>float64\<close> arithmetic of \<open>cosineSimilarity\<close>, as parameters over any carrier \<open>'d\<close> of
  \<open>float64\<close> values:
  \<^item> \<open>f64of32\<close>: the conversion \<open>float64(x)\<close>; \<open>f32of64\<close>: the conversion \<open>float32(x)\<close>;
  \<^item> \<open>f64zero\<close>: the zero value of a \<open>float64\<close> variable; \<open>f64isZero x\<close>: \<open>x == 0\<close>;
  \<^item> \<open>f64addMul acc x y\<close>: \<open>acc += x * y\<close> (which a compiler may fuse into one rounding);
  \<^item> \<open>f64mul\<close>, \<open>f64div\<close>: \<open>*\<close> and \<open>/\<close>; \<open>f64sqrt\<close>: \<open>math.Sqrt\<close>.
\<close>

record 'd Floats =
  f64of32 :: "float32 \<Rightarrow> 'd"
  f32of64 :: "'d \<Rightarrow> float32"
  f64zero :: 'd
  f64isZero :: "'d \<Rightarrow> bool"
  f64addMul :: "'d \<Rightarrow> 'd \<Rightarrow> 'd \<Rightarrow> 'd"
  f64mul :: "'d \<Rightarrow> 'd \<Rightarrow> 'd"
  f64div :: "'d \<Rightarrow> 'd \<Rightarrow> 'd"
  f64sqrt :: "'d \<Rightarrow> 'd"

text \<open>\<open>cosineSimilarity\<close>; the \<open>float32\<close> zero it returns early is the bit pattern 0.\<close>

definition cosineSimilarity :: "'d Floats \<Rightarrow> float32 list \<Rightarrow> float32 list \<Rightarrow> float32" where
  "cosineSimilarity fl a b =
     (if length a \<noteq> length b \<or> length a = 0 then 0
      else let (dot, normA, normB) =
                 foldl (\<lambda>(dot, normA, normB) i.
                          (f64addMul fl dot (f64of32 fl (a ! i)) (f64of32 fl (b ! i)),
                           f64addMul fl normA (f64of32 fl (a ! i)) (f64of32 fl (a ! i)),
                           f64addMul fl normB (f64of32 fl (b ! i)) (f64of32 fl (b ! i))))
                   (f64zero fl, f64zero fl, f64zero fl) [0 ..< length a];
               denom = f64mul fl (f64sqrt fl normA) (f64sqrt fl normB)
           in if f64isZero fl denom then 0 else f32of64 fl (f64div fl dot denom))"

text \<open>The struct \<open>scored\<close> of \<open>semanticSearch\<close>.\<close>

record scored =
  entry :: IndexEntry
  similarity :: float32

text \<open>
  The zero \<open>time.Time\<close> (1 January of year 1, UTC), which is what \<open>IsZero\<close> tests for, and
  the \<open>cutoff\<close> of \<open>semanticSearch\<close>.
\<close>

definition zeroTime :: Time where
  "zeroTime = - 62135596800000000000"

definition cutoffTime :: "GoLib \<Rightarrow> World \<Rightarrow> SearchOpts \<Rightarrow> Time" where
  "cutoffTime lib world opts =
     (if MaxDays opts > 0 then addDate lib (now world) 0 0 (int64 (- MaxDays opts)) else zeroTime)"

text \<open>
  The loop of \<open>semanticSearch\<close> over the entries of one index, \<open>candidates\<close> as argument:
  the role filter, the time filter, then the similarity and its test.
\<close>

fun scanEntries ::
  "GoLib \<Rightarrow> 'd Floats \<Rightarrow> SearchOpts \<Rightarrow> Time \<Rightarrow> float32 list \<Rightarrow> IndexEntry list \<Rightarrow> scored list
    \<Rightarrow> scored list"
where
  "scanEntries lib fl opts cutoff queryVec [] candidates = candidates"
| "scanEntries lib fl opts cutoff queryVec (e # entries) candidates =
     (if SearchOpts.Role opts \<noteq> ''both'' \<and> IndexEntry.Role e \<noteq> SearchOpts.Role opts
      then scanEntries lib fl opts cutoff queryVec entries candidates
      else if cutoff \<noteq> zeroTime \<and> IndexEntry.Timestamp e \<noteq> []
              \<and> (case timeParse lib ''2006-01-02T15:04:05'' (IndexEntry.Timestamp e) of
                    None \<Rightarrow> False
                  | Some t \<Rightarrow> t < cutoff)
      then scanEntries lib fl opts cutoff queryVec entries candidates
      else let sim = cosineSimilarity fl queryVec (Vector e)
           in if greater32 sim threshold
              then scanEntries lib fl opts cutoff queryVec entries
                     (candidates @ [\<lparr>entry = e, similarity = sim\<rparr>])
              else scanEntries lib fl opts cutoff queryVec entries candidates)"

section \<open>Notions the statements use\<close>

text \<open>
  The records of a file: what \<open>parseLine\<close> finds on its lines, in file order. Two records
  have the same key when role and timestamp agree, which is the test of \<open>parseLoop\<close>.
\<close>

definition recordsOf :: "GoLib \<Rightarrow> string list \<Rightarrow> (string \<times> string \<times> string) list" where
  "recordsOf lib lines = List.map_filter (parseLine lib) lines"

definition sameKey :: "string \<times> string \<times> string \<Rightarrow> string \<times> string \<times> string \<Rightarrow> bool" where
  "sameKey r r' = (fst r = fst r' \<and> fst (snd r) = fst (snd r'))"

definition summary :: "Message \<Rightarrow> string \<times> string \<times> string" where
  "summary m = (Message.Role m, Message.Timestamp m, Text m)"

text \<open>A list of records without those whose immediate successor has the same key.\<close>

fun keepLast :: "(string \<times> string \<times> string) list \<Rightarrow> (string \<times> string \<times> string) list" where
  "keepLast [] = []"
| "keepLast [r] = [r]"
| "keepLast (r # r' # rs) =
     (if sameKey r r' then keepLast (r' # rs) else r # keepLast (r' # rs))"

text \<open>The messages of a list of records, numbered from \<open>i\<close>.\<close>

fun numbered :: "GoLib \<Rightarrow> string \<Rightarrow> int \<Rightarrow> (string \<times> string \<times> string) list \<Rightarrow> Message list" where
  "numbered lib fpath i [] = []"
| "numbered lib fpath i (r # rs) = newMessage lib fpath i r # numbered lib fpath (i + 1) rs"

text \<open>
  Every match of every file the search reads, in file order: what the workers find,
  before the channel, the sort and the cut.
\<close>

definition allFileMatches :: "GoLib \<Rightarrow> World \<Rightarrow> string \<Rightarrow> string \<Rightarrow> SearchOpts \<Rightarrow> Match list" where
  "allFileMatches lib world pattern searchPath opts =
     (case regexpCompile lib (''(?i)'' @ pattern) of
        None \<Rightarrow> []
      | Some re \<Rightarrow>
         concat (map (\<lambda>fp. fst (searchFileTracked lib world fp re
                                  (extractPrefilterLiterals lib pattern) opts))
                   (fst (findSessionFiles lib world searchPath (MaxDays opts)))))"

text \<open>The timestamp of a match, and a list of matches in non-increasing order of it.\<close>

abbreviation (input) stamp :: "Match \<Rightarrow> string" where
  "stamp m \<equiv> Timestamp (Message m)"

definition newestFirst :: "Match list \<Rightarrow> bool" where
  "newestFirst ms = sorted_wrt (\<lambda>a b. stamp a \<ge> stamp b) ms"

text \<open>
  What the main goroutine of \<open>regexSearch\<close> holds after the sort and before the cut, and
  the statistics it returns (for a pattern that compiles).
\<close>

definition sortedMatches :: "GoLib \<Rightarrow> World \<Rightarrow> string \<Rightarrow> string \<Rightarrow> SearchOpts \<Rightarrow> Match list" where
  "sortedMatches lib world pattern searchPath opts =
     (case regexpCompile lib (''(?i)'' @ pattern) of
        None \<Rightarrow> []
      | Some re \<Rightarrow>
         sortSlice lib newerFirst
           (concat (arrival world
              (filter (\<lambda>matches. length matches > 0)
                 (map fst (map (\<lambda>fp. searchFileTracked lib world fp re
                                  (extractPrefilterLiterals lib pattern) opts)
                    (fst (findSessionFiles lib world searchPath (MaxDays opts)))))))))"

definition searchStats :: "GoLib \<Rightarrow> World \<Rightarrow> string \<Rightarrow> string \<Rightarrow> SearchOpts \<Rightarrow> SearchStats" where
  "searchStats lib world pattern searchPath opts =
     (case regexpCompile lib (''(?i)'' @ pattern) of
        None \<Rightarrow> \<lparr>FilesTotal = 0, PrefilterSkipped = 0, RegexSearched = 0\<rparr>
      | Some re \<Rightarrow>
         (let files = fst (findSessionFiles lib world searchPath (MaxDays opts));
              pfSkipped = int32 (int (length (filter snd
                 (map (\<lambda>fp. searchFileTracked lib world fp re
                                  (extractPrefilterLiterals lib pattern) opts) files))))
          in \<lparr>FilesTotal = int (length files), PrefilterSkipped = pfSkipped,
               RegexSearched = int (length files) - pfSkipped\<rparr>))"

text \<open>
  What \<open>gob\<close> promises for a map field of the value it decodes into: it fills the map or
  leaves it alone, and never sets it to nil.
\<close>

definition decodeKeepsMap :: "GoLib \<Rightarrow> bool" where
  "decodeKeepsMap lib =
     (\<forall>stored idx. Files idx \<noteq> None \<longrightarrow> Files (snd (gobDecode lib stored idx)) \<noteq> None)"

text \<open>
  The number a \<open>float32\<close> bit pattern stands for (a finite one): with the fraction \<open>m\<close> and
  the exponent \<open>e\<close> of the magnitude it is, up to the sign, \<open>(2^23 + m) * 2^(e - 150)\<close>, or
  \<open>m * 2^(-149)\<close> when \<open>e = 0\<close>. \<open>significand\<close> is that number times \<open>2^150\<close>.
\<close>

definition significand :: "int \<Rightarrow> int" where
  "significand mag = (if mag div 2 ^ 23 = 0 then 2 * (mag mod 2 ^ 23)
                      else (2 ^ 23 + mag mod 2 ^ 23) * 2 ^ nat (mag div 2 ^ 23))"

definition value32 :: "float32 \<Rightarrow> rat" where
  "value32 x = (if negative32 x then - 1 else 1) * of_int (significand (magnitude32 x)) / 2 ^ 150"

text \<open>An entry that neither the role filter nor the time filter of the loop skips.\<close>

definition passesFilters :: "GoLib \<Rightarrow> SearchOpts \<Rightarrow> Time \<Rightarrow> IndexEntry \<Rightarrow> bool" where
  "passesFilters lib opts cutoff e =
     ((SearchOpts.Role opts = ''both'' \<or> IndexEntry.Role e = SearchOpts.Role opts)
      \<and> (cutoff = zeroTime \<or> IndexEntry.Timestamp e = []
         \<or> (case timeParse lib ''2006-01-02T15:04:05'' (IndexEntry.Timestamp e) of
               None \<Rightarrow> True
             | Some t \<Rightarrow> cutoff \<le> t)))"

section \<open>Sample inputs\<close>

text \<open>
  Transcript lines with what \<open>encoding/json\<close> reads from each. The first three are user
  turns within the same second; the fourth is an assistant turn of that second, its
  content a list of blocks.
\<close>

definition lineFirst :: string where
  \<open>lineFirst = ''{"type":"user","timestamp":"2024-05-01T10:00:00.000Z","message":{"content":"first"}}''\<close>

definition lineSecond :: string where
  \<open>lineSecond = ''{"type":"user","timestamp":"2024-05-01T10:00:00.250Z","message":{"content":"second"}}''\<close>

definition lineThird :: string where
  \<open>lineThird = ''{"type":"user","timestamp":"2024-05-01T10:00:00.500Z","message":{"content":"third"}}''\<close>

definition lineReply :: string where
  \<open>lineReply = ''{"type":"assistant","timestamp":"2024-05-01T10:00:00.750Z","message":{"content":[{"type":"text","text":"reply"}]}}''\<close>

definition lineDeployA :: string where
  \<open>lineDeployA = ''{"type":"user","timestamp":"2024-05-01T10:00:00.000Z","message":{"content":"Deploy failed"}}''\<close>

definition lineDeployB :: string where
  \<open>lineDeployB = ''{"type":"user","timestamp":"2024-05-01T10:00:00.000Z","message":{"content":"deploy again"}}''\<close>

definition lineDeployC :: string where
  \<open>lineDeployC = ''{"type":"user","timestamp":"2024-05-02T09:30:00.000Z","message":{"content":"deploy done"}}''\<close>

definition lineError :: string where
  \<open>lineError = ''{"type":"user","timestamp":"2024-05-03T08:00:00.000Z","message":{"content":"an error occurred"}}''\<close>

definition jsonTurn :: "string \<Rightarrow> string \<Rightarrow> json \<Rightarrow> json" where
  "jsonTurn role ts content =
     JObject [(''type'', JString role), (''timestamp'', JString ts),
              (''message'', JObject [(''content'', content)])]"

definition sampleJSON :: "(string \<times> json) list" where
  "sampleJSON =
     [(lineFirst, jsonTurn ''user'' ''2024-05-01T10:00:00.000Z'' (JString ''first'')),
      (lineSecond, jsonTurn ''user'' ''2024-05-01T10:00:00.250Z'' (JString ''second'')),
      (lineThird, jsonTurn ''user'' ''2024-05-01T10:00:00.500Z'' (JString ''third'')),
      (lineReply, jsonTurn ''assistant'' ''2024-05-01T10:00:00.750Z''
         (JArray [JObject [(''type'', JString ''text''), (''text'', JString ''reply'')]])),
      (lineDeployA, jsonTurn ''user'' ''2024-05-01T10:00:00.000Z'' (JString ''Deploy failed'')),
      (lineDeployB, jsonTurn ''user'' ''2024-05-01T10:00:00.000Z'' (JString ''deploy again'')),
      (lineDeployC, jsonTurn ''user'' ''2024-05-02T09:30:00.000Z'' (JString ''deploy done'')),
      (lineError, jsonTurn ''user'' ''2024-05-03T08:00:00.000Z'' (JString ''an error occurred''))]"

text \<open>
  An instance of the library that agrees with Go on the sample inputs: the JSON of the
  sample lines; paths without a trailing slash; the patterns \<open>deploy\<close>, \<open>errors?\<close> and
  \<open>x[(]|.*\<close> compiled case-insensitively (a text matches \<open>errors?\<close> exactly when it
  contains \<open>error\<close>, in any case; every text matches \<open>x[(]|.*\<close>, whose second branch
  \<open>.*\<close> matches the empty string); days of 24 hours; a stored index that decodes when it is the text \<open>good\<close> and otherwise
  fails after writing part of the index; insertion sort, as \<open>sort.Slice\<close> runs on at most
  12 elements; two timestamps, read as UTC.
\<close>

definition matchesDeploy :: "string \<Rightarrow> bool" where
  "matchesDeploy s = Contains (map lowerByte s) ''deploy''"

definition matchesErrors :: "string \<Rightarrow> bool" where
  "matchesErrors s = Contains (map lowerByte s) ''error''"

definition matchesAll :: "string \<Rightarrow> bool" where
  "matchesAll s = True"

definition sampleEntry :: IndexEntry where
  "sampleEntry = \<lparr>IndexEntry.SessionID = ''a'', MsgIndex = 0, Role = ''user'',
     Timestamp = ''2024-05-01T10:00:00'', Preview = ''Deploy failed'',
     FilePath = ''/p/proj/a.jsonl'', Vector = [0, 1]\<rparr>"

definition sampleLib :: GoLib where
  "sampleLib =
     \<lparr>jsonDecode = map_of sampleJSON,
      unicodeLower = (\<lambda>s. s),
      filepathBase = (\<lambda>p. rev (takeWhile (\<lambda>c. c \<noteq> CHR ''/'') (rev p))),
      filepathExt = (\<lambda>p. if CHR ''.'' \<in> set p
                          then CHR ''.'' # rev (takeWhile (\<lambda>c. c \<noteq> CHR ''.'') (rev p)) else []),
      filepathDir = (\<lambda>p. rev (drop 1 (dropWhile (\<lambda>c. c \<noteq> CHR ''/'') (rev p)))),
      filepathJoin = (\<lambda>parts. Join parts ''/''),
      regexpCompile = map_of
        [(''(?i)deploy'', matchesDeploy), (''(?i)errors?'', matchesErrors),
         (''(?i)x[(]|.*'', matchesAll)],
      addDate = (\<lambda>t years months days. t + days * 86400000000000),
      gobDecode = (\<lambda>stored idx.
         if stored = ''good'' then (False, idx\<lparr>Entries := [sampleEntry]\<rparr>)
         else (True, idx\<lparr>Entries := [sampleEntry], Index.Project := []\<rparr>)),
      sortSlice = insertionSort,
      timeParse = (\<lambda>layout. map_of
        [(''2024-05-01T10:00:00'', 1714557600000000000),
         (''2024-04-20T10:00:00'', 1713607200000000000)])\<rparr>"

text \<open>
  A machine with four transcripts of one project, all modified an hour ago, and a stored
  index for the project \<open>proj\<close>; results arrive in file order.
\<close>

definition sampleFile :: FileInfo where
  "sampleFile = \<lparr>IsDir = False, ModTime = 1714644000000000000\<rparr>"

definition sampleWorld :: World where
  "sampleWorld =
     \<lparr>walk = (\<lambda>root. [(''/p/proj'', Some \<lparr>IsDir = True, ModTime = 1714644000000000000\<rparr>),
                      (''/p/proj/a.jsonl'', Some sampleFile),
                      (''/p/proj/b.jsonl'', Some sampleFile),
                      (''/p/proj/c.jsonl'', Some sampleFile),
                      (''/p/proj/e.jsonl'', Some sampleFile),
                      (''/p/proj/notes.txt'', Some sampleFile)]),
      readFile = map_of
        [(''/p/proj/a.jsonl'', lineDeployA @ [CHR 0x0A]),
         (''/p/proj/b.jsonl'', lineDeployB @ [CHR 0x0A]),
         (''/p/proj/c.jsonl'', lineDeployC @ [CHR 0x0A]),
         (''/p/proj/e.jsonl'', lineError @ [CHR 0x0A]),
         (''/home/u/.claude/search-index/proj.gob'', ''good''),
         (''/home/u/.claude/search-index/old.gob'', ''damaged'')],
      now = 1714647600000000000,
      userHomeDir = ''/home/u'',
      arrival = (\<lambda>rs. rs)\<rparr>"

definition sampleOpts :: SearchOpts where
  "sampleOpts = \<lparr>SearchOpts.Role = ''both'', MaxResults = 20, MaxDays = 7, Before = 0,
     After = 0, ListOnly = False\<rparr>"

text \<open>Three user turns of one second, and a conversation of three turns of one second.\<close>

definition dataTriple :: string where
  "dataTriple = lineFirst @ [CHR 0x0A] @ lineSecond @ [CHR 0x0A] @ lineThird @ [CHR 0x0A]"

definition dataPair :: string where
  "dataPair = lineFirst @ [CHR 0x0A] @ [CHR 0x0A] @ lineSecond @ [CHR 0x0A] @ lineReply"

definition dataTalk :: string where
  "dataTalk = lineFirst @ [CHR 0x0A] @ lineReply @ [CHR 0x0A] @ lineSecond @ [CHR 0x0A]"

text \<open>A user turn, the reply, and two more user turns, all of one second.\<close>

definition dataChain :: string where
  "dataChain = lineFirst @ [CHR 0x0A] @ lineReply @ [CHR 0x0A] @ lineSecond @ [CHR 0x0A]
     @ lineThird @ [CHR 0x0A]"

text \<open>The match a sample transcript of one user turn gives, and the files of a result.\<close>

definition sampleMatch :: "string \<Rightarrow> string \<Rightarrow> string \<Rightarrow> Match" where
  "sampleMatch name ts text =
     \<lparr>Message = \<lparr>Message.Role = ''user'', Type = ''user'', Text = text, Timestamp = ts,
                  SessionID = name, Project = ''proj'',
                  FilePath = ''/p/proj/'' @ name @ ''.jsonl'', MsgIndex = 0\<rparr>,
      ContextBefore = [], ContextAfter = [], Similarity = 0\<rparr>"

definition resultFiles :: "error + Match list \<times> SearchStats \<Rightarrow> string list" where
  "resultFiles r =
     (case r of Inl e \<Rightarrow> [] | Inr (matches, stats) \<Rightarrow> map (\<lambda>m. FilePath (Message m)) matches)"

text \<open>The same machine when \<open>b.jsonl\<close> cannot be read.\<close>

definition quietWorld :: World where
  "quietWorld = sampleWorld\<lparr>readFile := (readFile sampleWorld)(''/p/proj/b.jsonl'' := None)\<rparr>"

text \<open>
  Floating point as an amd64 machine computes it, a \<open>float64\<close> carried as the rational it
  stands for: every operation rounds its exact result to 53 significant bits, to the
  nearest and to even on a tie (\<open>roundBits\<close>, \<open>roundSqrt\<close>), and the conversion to
  \<open>float32\<close> rounds to 24 bits and encodes (\<open>encode32\<close>). Exponents stay within the range
  of normal numbers on the sample inputs.
\<close>

fun settle :: "nat \<Rightarrow> nat \<Rightarrow> rat \<Rightarrow> int \<Rightarrow> rat \<times> int" where
  "settle 0 p x e = (x, e)"
| "settle (Suc fuel) p x e =
     (if x \<ge> 2 ^ p then settle fuel p (x / 2) (e + 1)
      else if x < 2 ^ (p - 1) then settle fuel p (x * 2) (e - 1)
      else (x, e))"

definition nearestEven :: "rat \<Rightarrow> int" where
  "nearestEven y =
     (let n = \<lfloor>y\<rfloor>; r = y - of_int n
      in if r > 1 / 2 \<or> (r = 1 / 2 \<and> odd n) then n + 1 else n)"

definition scaleBy :: "int \<Rightarrow> int \<Rightarrow> rat" where
  "scaleBy n e = (if e \<ge> 0 then of_int n * 2 ^ nat e else of_int n / 2 ^ nat (- e))"

definition roundBits :: "nat \<Rightarrow> rat \<Rightarrow> rat" where
  "roundBits p x =
     (if x = 0 then 0
      else let (y, e) = settle 2200 p \<bar>x\<bar> 0; r = scaleBy (nearestEven y) e
           in if x < 0 then - r else r)"

fun newton :: "nat \<Rightarrow> int \<Rightarrow> int \<Rightarrow> int" where
  "newton 0 n x = x"
| "newton (Suc fuel) n x =
     (let y = (x + n div x) div 2 in if y \<ge> x then x else newton fuel n y)"

fun settle4 :: "nat \<Rightarrow> rat \<Rightarrow> int \<Rightarrow> rat \<times> int" where
  "settle4 0 x k = (x, k)"
| "settle4 (Suc fuel) x k =
     (if x \<ge> 2 ^ 108 then settle4 fuel (x / 4) (k - 1)
      else if x < 2 ^ 106 then settle4 fuel (x * 4) (k + 1)
      else (x, k))"

definition roundSqrt :: "rat \<Rightarrow> rat" where
  "roundSqrt x =
     (if x \<le> 0 then 0
      else let (y, k) = settle4 1200 x 0;
               s = newton 200 \<lfloor>y\<rfloor> (2 ^ 54);
               n = s div 2;
               n = (if odd s \<and> (of_int (s * s) \<noteq> y \<or> odd n) then n + 1 else n)
           in scaleBy n (1 - k))"

definition encode32 :: "rat \<Rightarrow> float32" where
  "encode32 x =
     (if x = 0 then 0
      else let (y, e) = settle 400 24 \<bar>x\<bar> 0;
               n = nearestEven y;
               (n, e) = (if n = 2 ^ 24 then (2 ^ 23, e + 1) else (n, e));
               bits = (e + 150) * 2 ^ 23 + (n - 2 ^ 23)
           in if e + 150 < 1 \<or> e + 150 > 254 then 0x7FC00000
              else word_of_int (if x < 0 then 2 ^ 31 + bits else bits))"

definition sampleFloats :: "rat Floats" where
  "sampleFloats =
     \<lparr>f64of32 = value32,
      f32of64 = encode32,
      f64zero = 0,
      f64isZero = (\<lambda>x. x = 0),
      f64addMul = (\<lambda>acc x y. roundBits 53 (acc + roundBits 53 (x * y))),
      f64mul = (\<lambda>x y. roundBits 53 (x * y)),
      f64div = (\<lambda>x y. roundBits 53 (x / y)),
      f64sqrt = roundSqrt\<rparr>"

text \<open>
  A query vector and five index entries: three user turns of 1 May whose vectors have
  cosine 29/100, 30/100 and 31/100 with the query, a user turn of 20 April and an
  assistant turn, both of cosine 31/100. The search is for user turns of the last 7 days.
\<close>

definition sampleQuery :: "float32 list" where
  "sampleQuery = map encode32 [1, 0, 0, 0, 0]"

definition vectorEntry :: "string \<Rightarrow> string \<Rightarrow> rat list \<Rightarrow> IndexEntry" where
  "vectorEntry role ts v =
     sampleEntry\<lparr>IndexEntry.Role := role, IndexEntry.Timestamp := ts, Vector := map encode32 v\<rparr>"

definition sampleEntries :: "IndexEntry list" where
  "sampleEntries =
     [vectorEntry ''user'' ''2024-05-01T10:00:00'' [29, 1, 1, 54, 79],
      vectorEntry ''user'' ''2024-05-01T10:00:00'' [30, 0, 10, 30, 90],
      vectorEntry ''user'' ''2024-05-01T10:00:00'' [31, 1, 2, 3, 95],
      vectorEntry ''user'' ''2024-04-20T10:00:00'' [31, 1, 2, 3, 95],
      vectorEntry ''assistant'' ''2024-05-01T10:00:00'' [31, 1, 2, 3, 95]]"

definition userOpts :: SearchOpts where
  "userOpts = sampleOpts\<lparr>SearchOpts.Role := ''user''\<rparr>"

section \<open>The parser: the loop and its result\<close>

lemma sameKey_refl: "sameKey r r" by (simp add: sameKey_def)
lemma sameKey_sym: "sameKey r r' \<Longrightarrow> sameKey r' r" by (simp add: sameKey_def)
lemma sameKey_trans: "sameKey a b \<Longrightarrow> sameKey b c \<Longrightarrow> sameKey a c" by (simp add: sameKey_def)
lemma sameKey_cong_left: "sameKey a b \<Longrightarrow> sameKey a c = sameKey b c" by (auto simp add: sameKey_def)
lemma sameKey_cong_right: "sameKey a b \<Longrightarrow> sameKey c a = sameKey c b" by (auto simp add: sameKey_def)

lemma keepLast_Cons:
  "rs \<noteq> [] \<Longrightarrow> keepLast (r # rs) = (if sameKey r (hd rs) then keepLast rs else r # keepLast rs)"
  by (cases rs) simp_all

lemma keepLast_Nil_iff: "keepLast rs = [] \<longleftrightarrow> rs = []"
  by (induction rs rule: keepLast.induct) auto

lemma recordsOf_Nil: "recordsOf lib [] = []"
  by (simp add: recordsOf_def map_filter_simps)

lemma recordsOf_Cons:
  "recordsOf lib (l # ls) = (case parseLine lib l of None \<Rightarrow> recordsOf lib ls | Some r \<Rightarrow> r # recordsOf lib ls)"
  by (cases "parseLine lib l") (simp_all add: recordsOf_def map_filter_simps)

lemma recordsOf_append: "recordsOf lib (xs @ ys) = recordsOf lib xs @ recordsOf lib ys"
  by (induction xs) (simp_all add: recordsOf_Nil recordsOf_Cons split: option.splits)

lemma summary_newMessage: "summary (newMessage lib fpath i r) = r"
  by (cases r) (simp add: summary_def newMessage_def)

lemma butlast_snoc2: "butlast (xs @ [a, b]) = xs @ [a]"
  by (simp add: butlast_append)

lemma parseLoop_summary:
  "map summary (parseLoop lib fpath lines msgs idx) =
     (if msgs = [] then keepLast (recordsOf lib lines)
      else butlast (map summary msgs) @ keepLast (summary (last msgs) # recordsOf lib lines))"
proof (induction lines arbitrary: msgs idx)
  case Nil
  show ?case
    by (cases msgs rule: rev_cases) (simp_all add: recordsOf_Nil)
next
  case (Cons line lines)
  show ?case
  proof (cases "parseLine lib line")
    case None
    then show ?thesis using Cons.IH[of msgs idx] by (simp add: recordsOf_Cons)
  next
    case (Some r)
    obtain ty ts tx where r: "r = (ty, ts, tx)" by (cases r) auto
    let ?msg = "newMessage lib fpath idx (ty, ts, tx)"
    have sm: "summary ?msg = (ty, ts, tx)" by (rule summary_newMessage)
    show ?thesis
    proof (cases "msgs = []")
      case True
      then show ?thesis using Some r Cons.IH[of "[?msg]" "idx + 1"] sm
        by (simp add: recordsOf_Cons)
    next
      case False
      then obtain ms m where msgs: "msgs = ms @ [m]" by (cases msgs rule: rev_cases) auto
      show ?thesis
      proof (cases "Message.Timestamp m = ts \<and> Message.Role m = ty")
        case True
        then have sk: "sameKey (summary m) (ty, ts, tx)" by (simp add: sameKey_def summary_def)
        show ?thesis using Some r msgs True sk Cons.IH[of "ms @ [?msg]" idx] sm
          by (simp add: recordsOf_Cons)
      next
        case False
        then have sk: "\<not> sameKey (summary m) (ty, ts, tx)" by (auto simp add: sameKey_def summary_def)
        show ?thesis using Some r msgs False sk Cons.IH[of "ms @ [m, ?msg]" "idx + 1"] sm
          by (auto simp add: recordsOf_Cons butlast_snoc2)
      qed
    qed
  qed
qed

lemma newMessage_renumber: "(newMessage lib fpath k r)\<lparr>MsgIndex := i\<rparr> = newMessage lib fpath i r"
  by (cases r) (simp add: newMessage_def)

lemma parseLoop_built:
  "\<forall>m \<in> set msgs. \<exists>k. m = newMessage lib fpath k (summary m) \<Longrightarrow>
   \<forall>m \<in> set (parseLoop lib fpath lines msgs idx). \<exists>k. m = newMessage lib fpath k (summary m)"
proof (induction lines arbitrary: msgs idx)
  case Nil
  then show ?case by simp
next
  case (Cons line lines)
  show ?case
  proof (cases "parseLine lib line")
    case None
    then show ?thesis using Cons by simp
  next
    case (Some r)
    obtain ty ts tx where r: "r = (ty, ts, tx)" by (cases r) auto
    let ?msg = "newMessage lib fpath idx (ty, ts, tx)"
    have new: "\<exists>k. ?msg = newMessage lib fpath k (summary ?msg)"
      by (rule exI[of _ idx]) (simp add: summary_newMessage)
    have a: "\<forall>m \<in> set (butlast msgs @ [?msg]). \<exists>k. m = newMessage lib fpath k (summary m)"
      using Cons.prems new by (auto dest: in_set_butlastD)
    have b: "\<forall>m \<in> set (msgs @ [?msg]). \<exists>k. m = newMessage lib fpath k (summary m)"
      using Cons.prems new by auto
    show ?thesis
      using Some r Cons.IH[OF a, of idx] Cons.IH[OF b, of "idx + 1"]
      by (simp add: Let_def)
  qed
qed

lemma fixMsgIndex_numbered:
  "\<forall>m \<in> set ms. \<exists>k. m = newMessage lib fpath k (summary m) \<Longrightarrow>
   fixMsgIndex i ms = numbered lib fpath i (map summary ms)"
proof (induction ms arbitrary: i)
  case Nil
  then show ?case by simp
next
  case (Cons m ms)
  then obtain k where m: "m = newMessage lib fpath k (summary m)" by auto
  have "m\<lparr>MsgIndex := i\<rparr> = newMessage lib fpath i (summary m)"
    by (subst m) (simp add: newMessage_renumber summary_newMessage)
  then show ?case using Cons by simp
qed

lemma parseLines_numbered:
  "parseLines lib fpath lines = numbered lib fpath 0 (keepLast (recordsOf lib lines))"
proof -
  have "\<forall>m \<in> set (parseLoop lib fpath lines [] 0). \<exists>k. m = newMessage lib fpath k (summary m)"
    by (rule parseLoop_built) simp
  then have "fixMsgIndex 0 (parseLoop lib fpath lines [] 0)
      = numbered lib fpath 0 (map summary (parseLoop lib fpath lines [] 0))"
    by (rule fixMsgIndex_numbered)
  then show ?thesis by (simp add: parseLines_def parseLoop_summary)
qed

lemma summary_numbered: "map summary (numbered lib fpath i rs) = rs"
  by (induction rs arbitrary: i) (simp_all add: summary_newMessage)

lemma length_numbered: "length (numbered lib fpath i rs) = length rs"
  by (induction rs arbitrary: i) simp_all

lemma MsgIndex_newMessage: "MsgIndex (newMessage lib fpath i r) = i"
  by (cases r) (simp add: newMessage_def)

lemma MsgIndex_numbered:
  "map MsgIndex (numbered lib fpath i rs) = map (\<lambda>k. i + int k) [0 ..< length rs]"
proof (induction rs arbitrary: i)
  case Nil
  then show ?case by simp
next
  case (Cons r rs)
  have "map (\<lambda>k. i + int k) [0 ..< Suc (length rs)] = i # map (\<lambda>k. i + 1 + int k) [0 ..< length rs]"
    by (simp add: upt_conv_Cons map_Suc_upt[symmetric] del: upt_Suc)
  then show ?case using Cons by (simp add: MsgIndex_newMessage)
qed

lemma parseLines_summary: "map summary (parseLines lib fpath lines) = keepLast (recordsOf lib lines)"
  by (simp add: parseLines_numbered summary_numbered)

lemma fixMsgIndex_only_index:
  "map (\<lambda>m. m\<lparr>MsgIndex := 0\<rparr>) (fixMsgIndex i ms) = map (\<lambda>m. m\<lparr>MsgIndex := 0\<rparr>) ms"
  by (induction ms arbitrary: i) simp_all

lemma keepLast_drop_first:
  "sameKey r1 r2 \<Longrightarrow> keepLast (pre @ r1 # r2 # post) = keepLast (pre @ r2 # post)"
proof (induction pre)
  case Nil
  then show ?case by simp
next
  case (Cons a pre)
  show ?case
  proof (cases pre)
    case Nil
    then show ?thesis using Cons.prems
      by (auto simp add: keepLast_Cons sameKey_cong_right[OF Cons.prems])
  next
    case (Cons b pre')
    then show ?thesis using Cons.IH Cons.prems by (simp add: keepLast_Cons)
  qed
qed

lemma keepLast_append:
  "xs = [] \<or> ys = [] \<or> \<not> sameKey (last xs) (hd ys) \<Longrightarrow> keepLast (xs @ ys) = keepLast xs @ keepLast ys"
proof (induction xs rule: keepLast.induct)
  case 1
  then show ?case by simp
next
  case (2 r)
  then show ?case by (cases ys) (auto simp add: keepLast_Cons)
next
  case (3 r r' rs)
  then show ?case by (auto simp add: keepLast_Cons)
qed

lemma keepLast_snoc_last: "keepLast (xs @ [r]) \<noteq> [] \<and> last (keepLast (xs @ [r])) = r"
proof (induction xs)
  case Nil
  then show ?case by simp
next
  case (Cons a xs)
  then show ?case by (auto simp add: keepLast_Cons)
qed

lemma keepLast_snoc_butlast:
  "sameKey r1 r2 \<Longrightarrow> butlast (keepLast (xs @ [r1])) = butlast (keepLast (xs @ [r2]))"
proof (induction xs)
  case Nil
  then show ?case by simp
next
  case (Cons a xs)
  have ne: "keepLast (xs @ [r1]) \<noteq> []" "keepLast (xs @ [r2]) \<noteq> []"
    using keepLast_snoc_last by auto
  show ?case
  proof (cases xs)
    case Nil
    then show ?thesis using Cons.prems by (auto simp add: sameKey_cong_right[OF Cons.prems])
  next
    case (Cons b xs')
    then show ?thesis using Cons.IH[OF Cons.prems] ne by (simp add: keepLast_Cons)
  qed
qed

lemma subseq_keepLast: "subseq (keepLast rs) rs"
  by (induction rs rule: keepLast.induct) (auto intro: list_emb_Cons)

section \<open>Evaluating the sample inputs\<close>

lemma HasPrefix_ascii:
  "isASCII c \<Longrightarrow> u \<noteq> [] \<Longrightarrow> \<not> isASCII (hd u) \<Longrightarrow> \<not> HasPrefix (c # cs) u"
  by (cases u) auto

lemma unicodeSpaces_lead: "\<forall>u \<in> set unicodeSpaces. u \<noteq> [] \<and> \<not> isASCII (hd u)"
  by (simp add: unicodeSpaces_def isASCII_def)

lemma unicodeSpaces_trail: "\<forall>u \<in> set (map rev unicodeSpaces). u \<noteq> [] \<and> \<not> isASCII (hd u)"
  by (simp add: unicodeSpaces_def isASCII_def)

lemma spaceWidth_ascii_gen:
  assumes "\<forall>u \<in> set spaces. u \<noteq> [] \<and> \<not> isASCII (hd u)" "isASCII c" "\<not> asciiSpace c"
  shows "spaceWidth spaces (c # cs) = 0"
proof -
  have "filter (HasPrefix (c # cs)) spaces = []"
    using assms(1,2) by (auto simp add: filter_empty_conv HasPrefix_ascii)
  then show ?thesis using assms(3) by (simp add: spaceWidth_def)
qed

lemma trimLeftSpaces_stop: "spaceWidth spaces s = 0 \<Longrightarrow> trimLeftSpaces spaces s = s"
  by (subst trimLeftSpaces.simps) simp

lemma TrimSpace_ascii_ends:
  assumes "s \<noteq> []" "isASCII (hd s)" "\<not> asciiSpace (hd s)" "isASCII (last s)" "\<not> asciiSpace (last s)"
  shows "TrimSpace s = s"
proof -
  obtain c cs where s: "s = c # cs" using assms(1) by (cases s) auto
  have "spaceWidth unicodeSpaces (c # cs) = 0"
    using unicodeSpaces_lead assms(2,3) unfolding s list.sel by (rule spaceWidth_ascii_gen)
  then have l: "trimLeftSpaces unicodeSpaces s = s"
    unfolding s by (rule trimLeftSpaces_stop)
  obtain ds where r: "rev s = last s # ds"
    using assms(1) by (cases s rule: rev_cases) auto
  have "spaceWidth (map rev unicodeSpaces) (rev s) = 0"
    unfolding r using unicodeSpaces_trail assms(4,5) by (rule spaceWidth_ascii_gen)
  then have "trimLeftSpaces (map rev unicodeSpaces) (rev s) = rev s"
    by (rule trimLeftSpaces_stop)
  then show ?thesis by (simp add: TrimSpace_def l)
qed


lemma splitByte_line:
  "sep \<notin> set l \<Longrightarrow> splitByte sep cur (l @ sep # rest) = (cur @ l) # splitByte sep [] rest"
  by (induction l arbitrary: cur) auto

lemma splitByte_last: "sep \<notin> set l \<Longrightarrow> splitByte sep cur l = [cur @ l]"
  by (induction l arbitrary: cur) auto

lemma nl_lines:
  "CHR 0x0A \<notin> set lineFirst" "CHR 0x0A \<notin> set lineSecond" "CHR 0x0A \<notin> set lineThird"
  "CHR 0x0A \<notin> set lineReply"
  by (simp_all add: lineFirst_def lineSecond_def lineThird_def lineReply_def)

lemma split_dataTalk: "bytesSplit dataTalk = [lineFirst, lineReply, lineSecond, []]"
  using splitByte_line[OF nl_lines(1), of "[]"] splitByte_line[OF nl_lines(4), of "[]"]
    splitByte_line[OF nl_lines(2), of "[]"]
  by (simp add: bytesSplit_def dataTalk_def)

lemma split_dataTriple: "bytesSplit dataTriple = [lineFirst, lineSecond, lineThird, []]"
  using splitByte_line[OF nl_lines(1), of "[]"] splitByte_line[OF nl_lines(2), of "[]"]
    splitByte_line[OF nl_lines(3), of "[]"]
  by (simp add: bytesSplit_def dataTriple_def)

lemma split_dataPair: "bytesSplit dataPair = [lineFirst, [], lineSecond, lineReply]"
  using splitByte_line[OF nl_lines(1), of "[]"] splitByte_line[OF nl_lines(2), of "[]"]
    splitByte_last[OF nl_lines(4), of "[]"]
  by (simp add: bytesSplit_def dataPair_def)

lemma parse_samples:
  "parseLine sampleLib [] = None"
  "parseLine sampleLib lineFirst = Some (''user'', ''2024-05-01T10:00:00'', ''first'')"
  "parseLine sampleLib lineSecond = Some (''user'', ''2024-05-01T10:00:00'', ''second'')"
  "parseLine sampleLib lineThird = Some (''user'', ''2024-05-01T10:00:00'', ''third'')"
  "parseLine sampleLib lineReply = Some (''assistant'', ''2024-05-01T10:00:00'', ''reply'')"
  by (simp_all add: parseLine_def sampleLib_def sampleJSON_def jsonTurn_def extractText_def
        TrimSpace_ascii_ends isASCII_def asciiSpace_def lineFirst_def lineSecond_def
        lineThird_def lineReply_def)

lemma records_dataTalk:
  "recordsOf sampleLib (bytesSplit dataTalk) =
     [(''user'', ''2024-05-01T10:00:00'', ''first''), (''assistant'', ''2024-05-01T10:00:00'', ''reply''),
      (''user'', ''2024-05-01T10:00:00'', ''second'')]"
  by (simp add: split_dataTalk recordsOf_Cons recordsOf_Nil parse_samples)


section \<open>Eviction from the index (C9)\<close>

lemma removeLoop_filter:
  "removeLoop entries fpath kept = kept @ filter (\<lambda>e. IndexEntry.FilePath e \<noteq> fpath) entries"
  by (induction entries arbitrary: kept) simp_all

text \<open>
  C9. \<open>removeEntriesForFile\<close> returns exactly the entries whose \<open>FilePath\<close> differs from the
  given path, each unchanged and in the original order: the loop computes the filter of
  the list by that test.
\<close>

theorem removeEntriesForFile_keeps_others:
  "removeEntriesForFile entries fpath = filter (\<lambda>e. IndexEntry.FilePath e \<noteq> fpath) entries"
  by (simp add: removeEntriesForFile_def removeLoop_filter)

theorem removeEntriesForFile_keeps_others_witness:
  "removeEntriesForFile
     [sampleEntry, sampleEntry\<lparr>IndexEntry.FilePath := ''/p/proj/b.jsonl''\<rparr>,
      sampleEntry\<lparr>IndexEntry.MsgIndex := 1\<rparr>,
      sampleEntry\<lparr>IndexEntry.FilePath := ''/p/proj/c.jsonl''\<rparr>] ''/p/proj/a.jsonl''
   = [sampleEntry\<lparr>IndexEntry.FilePath := ''/p/proj/b.jsonl''\<rparr>,
      sampleEntry\<lparr>IndexEntry.FilePath := ''/p/proj/c.jsonl''\<rparr>]"
  using removeEntriesForFile_keeps_others
    [of "[sampleEntry, sampleEntry\<lparr>IndexEntry.FilePath := ''/p/proj/b.jsonl''\<rparr>,
      sampleEntry\<lparr>IndexEntry.MsgIndex := 1\<rparr>,
      sampleEntry\<lparr>IndexEntry.FilePath := ''/p/proj/c.jsonl''\<rparr>]" "''/p/proj/a.jsonl''"]
  by (simp add: sampleEntry_def)

section \<open>Ordinal indices (C5)\<close>

text \<open>
  C5. In the list \<open>parseJSONL\<close> returns, the \<open>MsgIndex\<close> of the message at position \<open>i\<close> is \<open>i\<close>:
  the indices are \<open>0, 1, ..., n - 1\<close>, strictly increasing. The renumbering changes
  nothing but \<open>MsgIndex\<close> (the list the first loop built is the same up to that field),
  and the messages are records of the file in file order.
\<close>

theorem parseJSONL_MsgIndex_dense:
  "map MsgIndex (parseJSONL lib fpath data) = map int [0 ..< length (parseJSONL lib fpath data)]
   \<and> sorted_wrt (<) (map MsgIndex (parseJSONL lib fpath data))
   \<and> map (\<lambda>m. m\<lparr>MsgIndex := 0\<rparr>) (parseJSONL lib fpath data)
       = map (\<lambda>m. m\<lparr>MsgIndex := 0\<rparr>) (parseLoop lib fpath (bytesSplit data) [] 0)
   \<and> subseq (map summary (parseJSONL lib fpath data)) (recordsOf lib (bytesSplit data))"
proof -
  let ?out = "parseJSONL lib fpath data"
  have idx: "map MsgIndex ?out = map int [0 ..< length ?out]"
    by (simp add: parseJSONL_def parseLines_numbered MsgIndex_numbered length_numbered)
  have "sorted_wrt (<) (map int [0 ..< length ?out])"
    by (simp add: sorted_wrt_map sorted_wrt_upt)
  then have inc: "sorted_wrt (<) (map MsgIndex ?out)"
    by (simp only: idx)
  have same: "map (\<lambda>m. m\<lparr>MsgIndex := 0\<rparr>) ?out
       = map (\<lambda>m. m\<lparr>MsgIndex := 0\<rparr>) (parseLoop lib fpath (bytesSplit data) [] 0)"
    by (simp add: parseJSONL_def parseLines_def fixMsgIndex_only_index)
  have sub: "subseq (map summary ?out) (recordsOf lib (bytesSplit data))"
    by (simp add: parseJSONL_def parseLines_summary subseq_keepLast)
  from idx inc same sub show ?thesis by blast
qed

theorem parseJSONL_MsgIndex_dense_witness:
  "map MsgIndex (parseJSONL sampleLib ''/p/proj/s.jsonl'' dataTalk) = [0, 1, 2]
   \<and> map Text (parseJSONL sampleLib ''/p/proj/s.jsonl'' dataTalk) = [''first'', ''reply'', ''second'']"
proof -
  have s: "map summary (parseJSONL sampleLib ''/p/proj/s.jsonl'' dataTalk) =
     [(''user'', ''2024-05-01T10:00:00'', ''first''), (''assistant'', ''2024-05-01T10:00:00'', ''reply''),
      (''user'', ''2024-05-01T10:00:00'', ''second'')]"
    by (simp add: parseJSONL_def parseLines_summary records_dataTalk sameKey_def)
  then have len: "length (parseJSONL sampleLib ''/p/proj/s.jsonl'' dataTalk) = 3"
    by (metis length_map length_Cons list.size(3) numeral_3_eq_3)
  have t: "map Text (parseJSONL sampleLib ''/p/proj/s.jsonl'' dataTalk) =
      map (\<lambda>r. snd (snd r)) (map summary (parseJSONL sampleLib ''/p/proj/s.jsonl'' dataTalk))"
    by (simp add: summary_def)
  show ?thesis
    using parseJSONL_MsgIndex_dense[of sampleLib "''/p/proj/s.jsonl''" dataTalk] len
    by (simp add: t s upt_rec del: upt_Suc)
qed

section \<open>Deduplication of consecutive records (C3)\<close>

lemma recordsOf_none: "recordsOf lib B = [] \<Longrightarrow> recordsOf lib (A @ B @ C) = recordsOf lib (A @ C)"
  by (simp add: recordsOf_append)

text \<open>
  C3, as the code has it. Let two records with the same role and timestamp stand on the
  lines \<open>l1\<close> and \<open>l2\<close> with no record between them. Then the parser's output is what it
  would be without the line \<open>l1\<close>: the pair gives one message and the later record has
  replaced the earlier one. When the record after \<open>l2\<close>, if there is one, differs in role
  or timestamp, the output is the output for the lines up to \<open>l1\<close> without its last
  message, then one message with the role, timestamp and text of \<open>l2\<close>, then the output
  for the lines after \<open>l2\<close>.
\<close>

theorem parseJSONL_replaces_duplicate:
  assumes split: "bytesSplit data = A @ l1 # B @ l2 # C"
    and between: "recordsOf lib B = []"
    and first: "parseLine lib l1 = Some (role, ts, text1)"
    and second: "parseLine lib l2 = Some (role, ts, text2)"
  shows "parseJSONL lib fpath data = parseLines lib fpath (A @ B @ l2 # C)
     \<and> (recordsOf lib C = [] \<or> \<not> sameKey (role, ts, text2) (hd (recordsOf lib C)) \<longrightarrow>
          map summary (parseJSONL lib fpath data) =
            butlast (map summary (parseLines lib fpath (A @ [l1]))) @ [(role, ts, text2)]
              @ map summary (parseLines lib fpath C))"
proof -
  let ?r1 = "(role, ts, text1)" and ?r2 = "(role, ts, text2)"
  have sk: "sameKey ?r1 ?r2" by (simp add: sameKey_def)
  have recs: "recordsOf lib (bytesSplit data) = recordsOf lib A @ ?r1 # ?r2 # recordsOf lib C"
    by (simp add: split recordsOf_append recordsOf_Cons between first second)
  have recs': "recordsOf lib (A @ B @ l2 # C) = recordsOf lib A @ ?r2 # recordsOf lib C"
    by (simp add: recordsOf_append recordsOf_Cons between second)
  have kl: "keepLast (recordsOf lib (bytesSplit data)) = keepLast (recordsOf lib (A @ B @ l2 # C))"
    unfolding recs recs' using sk by (rule keepLast_drop_first)
  have one: "parseJSONL lib fpath data = parseLines lib fpath (A @ B @ l2 # C)"
    by (simp only: parseJSONL_def parseLines_numbered kl)
  have two: "map summary (parseJSONL lib fpath data) =
            butlast (map summary (parseLines lib fpath (A @ [l1]))) @ [?r2]
              @ map summary (parseLines lib fpath C)"
    if nxt: "recordsOf lib C = [] \<or> \<not> sameKey ?r2 (hd (recordsOf lib C))"
  proof -
    have "keepLast ((recordsOf lib A @ [?r2]) @ recordsOf lib C)
        = keepLast (recordsOf lib A @ [?r2]) @ keepLast (recordsOf lib C)"
      by (rule keepLast_append) (use nxt in auto)
    moreover have "keepLast (recordsOf lib A @ [?r2])
        = butlast (keepLast (recordsOf lib A @ [?r2])) @ [?r2]"
      using keepLast_snoc_last[of "recordsOf lib A" ?r2] by (metis append_butlast_last_id)
    moreover have "butlast (keepLast (recordsOf lib A @ [?r2])) = butlast (keepLast (recordsOf lib A @ [?r1]))"
      using keepLast_snoc_butlast[OF sk, of "recordsOf lib A"] by simp
    ultimately have "keepLast (recordsOf lib A @ ?r2 # recordsOf lib C)
        = butlast (keepLast (recordsOf lib A @ [?r1])) @ [?r2] @ keepLast (recordsOf lib C)"
      by simp
    moreover have "map summary (parseJSONL lib fpath data)
        = keepLast (recordsOf lib A @ ?r2 # recordsOf lib C)"
      by (simp only: one parseLines_summary recs')
    moreover have "map summary (parseLines lib fpath (A @ [l1])) = keepLast (recordsOf lib A @ [?r1])"
      by (simp add: parseLines_summary recordsOf_append recordsOf_Cons recordsOf_Nil first)
    moreover have "map summary (parseLines lib fpath C) = keepLast (recordsOf lib C)"
      by (rule parseLines_summary)
    ultimately show ?thesis by (simp only:)
  qed
  from one two show ?thesis by blast
qed

text \<open>
  As stated, C3 fails on a run of three: \<open>lineFirst\<close> and \<open>lineSecond\<close> are consecutive
  records with the same timestamp and role, and the one message of the output has the
  text of the third line, not of the second.
\<close>

theorem parseJSONL_replaces_duplicate_counterexample:
  "bytesSplit dataTriple = [lineFirst, lineSecond, lineThird, []]
   \<and> parseLine sampleLib lineFirst = Some (''user'', ''2024-05-01T10:00:00'', ''first'')
   \<and> parseLine sampleLib lineSecond = Some (''user'', ''2024-05-01T10:00:00'', ''second'')
   \<and> map Text (parseJSONL sampleLib ''/p/proj/s.jsonl'' dataTriple) = [''third'']
   \<and> ''second'' \<notin> set (map Text (parseJSONL sampleLib ''/p/proj/s.jsonl'' dataTriple))"
proof -
  have "map summary (parseJSONL sampleLib ''/p/proj/s.jsonl'' dataTriple)
      = [(''user'', ''2024-05-01T10:00:00'', ''third'')]"
    by (simp add: parseJSONL_def parseLines_summary split_dataTriple recordsOf_Cons recordsOf_Nil
        parse_samples sameKey_def)
  moreover have "map Text (parseJSONL sampleLib ''/p/proj/s.jsonl'' dataTriple) =
      map (\<lambda>r. snd (snd r)) (map summary (parseJSONL sampleLib ''/p/proj/s.jsonl'' dataTriple))"
    by (simp add: summary_def)
  ultimately show ?thesis by (simp add: split_dataTriple parse_samples)
qed

text \<open>
  The theorem at \<open>dataPair\<close>: two user turns of one second with an empty line between
  them, then the reply.
\<close>

theorem parseJSONL_replaces_duplicate_witness:
  "bytesSplit dataPair = [] @ lineFirst # [[]] @ lineSecond # [lineReply]
   \<and> parseJSONL sampleLib ''/p/proj/s.jsonl'' dataPair
       = parseLines sampleLib ''/p/proj/s.jsonl'' ([] @ [[]] @ lineSecond # [lineReply])
   \<and> map summary (parseJSONL sampleLib ''/p/proj/s.jsonl'' dataPair)
       = [(''user'', ''2024-05-01T10:00:00'', ''second''),
          (''assistant'', ''2024-05-01T10:00:00'', ''reply'')]"
proof -
  have split: "bytesSplit dataPair = [] @ lineFirst # [[]] @ lineSecond # [lineReply]"
    by (simp add: split_dataPair)
  have between: "recordsOf sampleLib [[]] = []"
    by (simp add: recordsOf_Cons recordsOf_Nil parse_samples)
  have recsC: "recordsOf sampleLib [lineReply] = [(''assistant'', ''2024-05-01T10:00:00'', ''reply'')]"
    by (simp add: recordsOf_Cons recordsOf_Nil parse_samples)
  have nxt: "recordsOf sampleLib [lineReply] = []
      \<or> \<not> sameKey (''user'', ''2024-05-01T10:00:00'', ''second'') (hd (recordsOf sampleLib [lineReply]))"
    by (simp add: recsC sameKey_def)
  note inst = parseJSONL_replaces_duplicate[OF split between parse_samples(2) parse_samples(3),
      of "''/p/proj/s.jsonl''"]
  have a: "map summary (parseLines sampleLib ''/p/proj/s.jsonl'' ([] @ [lineFirst]))
      = [(''user'', ''2024-05-01T10:00:00'', ''first'')]"
    by (simp add: parseLines_summary recordsOf_Cons recordsOf_Nil parse_samples)
  have c: "map summary (parseLines sampleLib ''/p/proj/s.jsonl'' [lineReply])
      = [(''assistant'', ''2024-05-01T10:00:00'', ''reply'')]"
    by (simp add: parseLines_summary recsC)
  from inst nxt have "map summary (parseJSONL sampleLib ''/p/proj/s.jsonl'' dataPair) =
      butlast (map summary (parseLines sampleLib ''/p/proj/s.jsonl'' ([] @ [lineFirst])))
        @ [(''user'', ''2024-05-01T10:00:00'', ''second'')]
        @ map summary (parseLines sampleLib ''/p/proj/s.jsonl'' [lineReply])"
    by blast
  then have "map summary (parseJSONL sampleLib ''/p/proj/s.jsonl'' dataPair)
       = [(''user'', ''2024-05-01T10:00:00'', ''second''),
          (''assistant'', ''2024-05-01T10:00:00'', ''reply'')]"
    using a c by simp
  with inst split show ?thesis by blast
qed

section \<open>Deduplication looks at neighbours only (C10)\<close>

text \<open>
  C10, as the code has it. The output is the list of the file's records without those
  whose immediate successor has the same role and timestamp (\<open>keepLast\<close>): a record is
  only ever replaced by the record right after it. So let \<open>l1\<close> and \<open>l2\<close> hold records with
  the same role and timestamp, with at least one record between them: when the record
  right after \<open>l1\<close> differs from it in role or timestamp, and the record right after
  \<open>l2\<close>, if there is one, differs from it, both are in the output, as the last message
  of the output for the lines up to \<open>l1\<close> and the last message of the output for the
  lines from there up to \<open>l2\<close>.
\<close>

theorem parseJSONL_dedup_adjacent_only:
  assumes split: "bytesSplit data = A @ l1 # B @ l2 # C"
    and first: "parseLine lib l1 = Some r1"
    and second: "parseLine lib l2 = Some r2"
    and same: "sameKey r1 r2"
    and between: "recordsOf lib B \<noteq> []"
    and after_first: "\<not> sameKey r1 (hd (recordsOf lib B))"
    and after_second: "recordsOf lib C = [] \<or> \<not> sameKey r2 (hd (recordsOf lib C))"
  shows "map summary (parseJSONL lib fpath data) = keepLast (recordsOf lib (bytesSplit data))
     \<and> map summary (parseJSONL lib fpath data) =
          map summary (parseLines lib fpath (A @ [l1])) @ map summary (parseLines lib fpath (B @ [l2]))
            @ map summary (parseLines lib fpath C)
     \<and> parseLines lib fpath (A @ [l1]) \<noteq> [] \<and> summary (last (parseLines lib fpath (A @ [l1]))) = r1
     \<and> parseLines lib fpath (B @ [l2]) \<noteq> [] \<and> summary (last (parseLines lib fpath (B @ [l2]))) = r2"
proof -
  let ?a = "recordsOf lib A" and ?b = "recordsOf lib B" and ?c = "recordsOf lib C"
  have all: "map summary (parseJSONL lib fpath data) = keepLast (recordsOf lib (bytesSplit data))"
    by (simp add: parseJSONL_def parseLines_summary)
  have recs: "recordsOf lib (bytesSplit data) = (?a @ [r1]) @ (?b @ [r2]) @ ?c"
    by (simp add: split recordsOf_append recordsOf_Cons first second)
  have "keepLast ((?a @ [r1]) @ ((?b @ [r2]) @ ?c))
      = keepLast (?a @ [r1]) @ keepLast ((?b @ [r2]) @ ?c)"
    by (rule keepLast_append) (use between after_first in auto)
  moreover have "keepLast ((?b @ [r2]) @ ?c) = keepLast (?b @ [r2]) @ keepLast ?c"
    by (rule keepLast_append) (use after_second in auto)
  ultimately have parts: "keepLast (recordsOf lib (bytesSplit data))
      = keepLast (?a @ [r1]) @ keepLast (?b @ [r2]) @ keepLast ?c"
    by (simp only: recs)
  have sa: "map summary (parseLines lib fpath (A @ [l1])) = keepLast (?a @ [r1])"
    by (simp add: parseLines_summary recordsOf_append recordsOf_Cons recordsOf_Nil first)
  have sb: "map summary (parseLines lib fpath (B @ [l2])) = keepLast (?b @ [r2])"
    by (simp add: parseLines_summary recordsOf_append recordsOf_Cons recordsOf_Nil second)
  have sc: "map summary (parseLines lib fpath C) = keepLast ?c"
    by (rule parseLines_summary)
  have decomposed: "map summary (parseJSONL lib fpath data) =
          map summary (parseLines lib fpath (A @ [l1])) @ map summary (parseLines lib fpath (B @ [l2]))
            @ map summary (parseLines lib fpath C)"
    by (simp only: all parts sa sb sc)
  have la: "parseLines lib fpath (A @ [l1]) \<noteq> [] \<and> summary (last (parseLines lib fpath (A @ [l1]))) = r1"
    using keepLast_snoc_last[of ?a r1] sa by (metis last_map map_is_Nil_conv)
  have lb: "parseLines lib fpath (B @ [l2]) \<noteq> [] \<and> summary (last (parseLines lib fpath (B @ [l2]))) = r2"
    using keepLast_snoc_last[of ?b r2] sb by (metis last_map map_is_Nil_conv)
  from all decomposed la lb show ?thesis by blast
qed

lemma split_dataChain: "bytesSplit dataChain = [lineFirst, lineReply, lineSecond, lineThird, []]"
  using splitByte_line[OF nl_lines(1), of "[]"] splitByte_line[OF nl_lines(4), of "[]"]
    splitByte_line[OF nl_lines(2), of "[]"] splitByte_line[OF nl_lines(3), of "[]"]
  by (simp add: bytesSplit_def dataChain_def)

lemma Text_summary: "map Text ms = map (\<lambda>r. snd (snd r)) (map summary ms)"
  by (simp add: summary_def)

text \<open>
  As stated, C10 fails in two ways. In \<open>dataTriple\<close> the first and the third record share
  role and timestamp and the second lies between them, and only the third is in the
  output. In \<open>dataChain\<close> the first and the third record (\<open>lineFirst\<close>, \<open>lineSecond\<close>) share
  role and timestamp and the reply lies between them, and \<open>lineSecond\<close> is not in the
  output: the record after it has replaced it.
\<close>

theorem parseJSONL_dedup_adjacent_only_counterexample:
  "bytesSplit dataTriple = [lineFirst, lineSecond, lineThird, []]
   \<and> bytesSplit dataChain = [lineFirst, lineReply, lineSecond, lineThird, []]
   \<and> parseLine sampleLib lineFirst = Some (''user'', ''2024-05-01T10:00:00'', ''first'')
   \<and> parseLine sampleLib lineSecond = Some (''user'', ''2024-05-01T10:00:00'', ''second'')
   \<and> parseLine sampleLib lineThird = Some (''user'', ''2024-05-01T10:00:00'', ''third'')
   \<and> parseLine sampleLib lineReply = Some (''assistant'', ''2024-05-01T10:00:00'', ''reply'')
   \<and> map Text (parseJSONL sampleLib ''/p/proj/s.jsonl'' dataTriple) = [''third'']
   \<and> map Text (parseJSONL sampleLib ''/p/proj/s.jsonl'' dataChain) = [''first'', ''reply'', ''third'']"
proof -
  have a: "map summary (parseJSONL sampleLib ''/p/proj/s.jsonl'' dataTriple)
      = [(''user'', ''2024-05-01T10:00:00'', ''third'')]"
    by (simp add: parseJSONL_def parseLines_summary split_dataTriple recordsOf_Cons recordsOf_Nil
        parse_samples sameKey_def)
  have b: "map summary (parseJSONL sampleLib ''/p/proj/s.jsonl'' dataChain)
      = [(''user'', ''2024-05-01T10:00:00'', ''first''), (''assistant'', ''2024-05-01T10:00:00'', ''reply''),
         (''user'', ''2024-05-01T10:00:00'', ''third'')]"
    by (simp add: parseJSONL_def parseLines_summary split_dataChain recordsOf_Cons recordsOf_Nil
        parse_samples sameKey_def)
  show ?thesis
    by (simp add: Text_summary a b split_dataTriple split_dataChain parse_samples)
qed

text \<open>
  The theorem at \<open>dataTalk\<close>: a user turn, the reply, and a second user turn, all of one
  second.
\<close>

theorem parseJSONL_dedup_adjacent_only_witness:
  "bytesSplit dataTalk = [] @ lineFirst # [lineReply] @ lineSecond # [[]]
   \<and> map summary (parseJSONL sampleLib ''/p/proj/s.jsonl'' dataTalk) =
       [(''user'', ''2024-05-01T10:00:00'', ''first''),
        (''assistant'', ''2024-05-01T10:00:00'', ''reply''),
        (''user'', ''2024-05-01T10:00:00'', ''second'')]"
proof -
  have split: "bytesSplit dataTalk = [] @ lineFirst # [lineReply] @ lineSecond # [[]]"
    by (simp add: split_dataTalk)
  have same: "sameKey (''user'', ''2024-05-01T10:00:00'', ''first'') (''user'', ''2024-05-01T10:00:00'', ''second'')"
    by (simp add: sameKey_def)
  have recsB: "recordsOf sampleLib [lineReply] = [(''assistant'', ''2024-05-01T10:00:00'', ''reply'')]"
    by (simp add: recordsOf_Cons recordsOf_Nil parse_samples)
  have between: "recordsOf sampleLib [lineReply] \<noteq> []"
    by (simp add: recsB)
  have after_first: "\<not> sameKey (''user'', ''2024-05-01T10:00:00'', ''first'') (hd (recordsOf sampleLib [lineReply]))"
    by (simp add: recsB sameKey_def)
  have after_second: "recordsOf sampleLib [[]] = []
      \<or> \<not> sameKey (''user'', ''2024-05-01T10:00:00'', ''second'') (hd (recordsOf sampleLib [[]]))"
    by (simp add: recordsOf_Cons recordsOf_Nil parse_samples)
  note inst = parseJSONL_dedup_adjacent_only[OF split parse_samples(2) parse_samples(3) same
      between after_first after_second, of "''/p/proj/s.jsonl''"]
  then have "map summary (parseJSONL sampleLib ''/p/proj/s.jsonl'' dataTalk)
      = keepLast (recordsOf sampleLib (bytesSplit dataTalk))"
    by blast
  then have "map summary (parseJSONL sampleLib ''/p/proj/s.jsonl'' dataTalk) =
       [(''user'', ''2024-05-01T10:00:00'', ''first''),
        (''assistant'', ''2024-05-01T10:00:00'', ''reply''),
        (''user'', ''2024-05-01T10:00:00'', ''second'')]"
    by (simp add: records_dataTalk sameKey_def)
  with split show ?thesis by blast
qed

section \<open>The loop over the parts of a pattern\<close>

lemma literalsLoop_all_or_nothing:
  "literalsLoop lib parts literals =
     (if \<exists>part \<in> set parts. longestLiteral (Trim part ''()'') = [] then []
      else literals @ map (\<lambda>part. ToLower lib (longestLiteral (Trim part ''()''))) parts)"
  by (induction parts arbitrary: literals) (simp_all add: Let_def)

lemma extractPrefilterLiterals_all_or_nothing:
  "extractPrefilterLiterals lib pattern =
     (if \<exists>part \<in> set (splitTopLevelPipe (stripOuterGroup pattern)).
           longestLiteral (Trim part ''()'') = [] then []
      else map (\<lambda>part. ToLower lib (longestLiteral (Trim part ''()'')))
             (splitTopLevelPipe (stripOuterGroup pattern)))"
  by (simp add: extractPrefilterLiterals_def Let_def literalsLoop_all_or_nothing)

text \<open>
  What the loop of \<open>extractPrefilterLiterals\<close> guarantees, for the parts that
  \<open>splitTopLevelPipe\<close> gives after \<open>stripOuterGroup\<close>: when \<open>longestLiteral\<close> finds no
  literal in one of them the result is nil and every file passes the prefilter, and a
  result that is not nil has one literal for every part, in order.
\<close>

lemma part_without_literal_disables_prefilter:
  "((\<exists>part \<in> set (splitTopLevelPipe (stripOuterGroup pattern)).
        longestLiteral (Trim part ''()'') = []) \<longrightarrow>
      extractPrefilterLiterals lib pattern = []
      \<and> prefilterMatch lib data (extractPrefilterLiterals lib pattern))
   \<and> (extractPrefilterLiterals lib pattern \<noteq> [] \<longrightarrow>
        extractPrefilterLiterals lib pattern =
          map (\<lambda>part. ToLower lib (longestLiteral (Trim part ''()'')))
            (splitTopLevelPipe (stripOuterGroup pattern))
        \<and> (\<forall>part \<in> set (splitTopLevelPipe (stripOuterGroup pattern)).
              longestLiteral (Trim part ''()'') \<noteq> []))"
  by (simp add: extractPrefilterLiterals_all_or_nothing prefilterMatch_def)

lemma strip_sample: "stripOuterGroup ''(openclaw|.*)'' = ''openclaw|.*''"
  by (simp add: stripOuterGroup_def)

lemma split_sample: "splitTopLevelPipe ''openclaw|.*'' = [''openclaw'', ''.*'']"
  by (simp add: splitTopLevelPipe_def)

lemma weak_sample: "longestLiteral (Trim ''.*'' ''()'') = []"
  by (simp add: longestLiteral_def Trim_def isRegexMeta_def)

text \<open>The pattern \<open>(openclaw|.*)\<close> of the repository's test: the prefilter is disabled.\<close>

lemma literals_openclaw:
  "splitTopLevelPipe (stripOuterGroup ''(openclaw|.*)'') = [''openclaw'', ''.*'']
   \<and> extractPrefilterLiterals sampleLib ''(openclaw|.*)'' = []
   \<and> prefilterMatch sampleLib lineError (extractPrefilterLiterals sampleLib ''(openclaw|.*)'')"
proof -
  have parts: "splitTopLevelPipe (stripOuterGroup ''(openclaw|.*)'') = [''openclaw'', ''.*'']"
    by (simp only: strip_sample split_sample)
  have "\<exists>part \<in> set (splitTopLevelPipe (stripOuterGroup ''(openclaw|.*)'')).
        longestLiteral (Trim part ''()'') = []"
    unfolding parts using weak_sample by simp
  with part_without_literal_disables_prefilter[of "''(openclaw|.*)''" sampleLib lineError]
  have "extractPrefilterLiterals sampleLib ''(openclaw|.*)'' = []
      \<and> prefilterMatch sampleLib lineError (extractPrefilterLiterals sampleLib ''(openclaw|.*)'')"
    by blast
  with parts show ?thesis by blast
qed

lemma literals_errors: "extractPrefilterLiterals sampleLib ''errors?'' = [''errors'']"
  by (simp add: extractPrefilterLiterals_def stripOuterGroup_def splitTopLevelPipe_def
      longestLiteral_def Trim_def isRegexMeta_def ToLower_def isASCII_def lowerByte_def Let_def)

lemma literals_deploy: "extractPrefilterLiterals sampleLib ''deploy'' = [''deploy'']"
  by (simp add: extractPrefilterLiterals_def stripOuterGroup_def splitTopLevelPipe_def
      longestLiteral_def Trim_def isRegexMeta_def ToLower_def isASCII_def lowerByte_def Let_def)

section \<open>Sorted lists of matches, the sort and the channel\<close>

lemma not_newerFirst: "(\<not> newerFirst b a) = (stamp a \<ge> stamp b)"
  by (auto simp add: newerFirst_def)

lemma newestFirst_alt: "newestFirst ms = sorted_wrt (\<lambda>a b. \<not> newerFirst b a) ms"
  by (simp add: newestFirst_def not_newerFirst)

lemma newestFirst_sorted: "newestFirst ms = sorted (rev (map stamp ms))"
  by (simp add: newestFirst_def sorted_wrt_rev sorted_wrt_map flip: rev_map)

lemma newestFirst_take: "newestFirst ms \<Longrightarrow> newestFirst (take n ms)"
  by (simp add: newestFirst_def sorted_wrt_take)

lemma newestFirst_same_timestamps:
  assumes "newestFirst xs" "newestFirst ys" "mset xs = mset ys"
  shows "map stamp xs = map stamp ys"
proof -
  have m: "mset (rev (map stamp xs)) = mset (rev (map stamp ys))"
    using assms(3) by (metis mset_map mset_rev)
  have "sort (rev (map stamp xs)) = rev (map stamp xs)"
    using assms(1) by (simp add: newestFirst_sorted sort_key_id_if_sorted)
  moreover have "sort (rev (map stamp xs)) = rev (map stamp ys)"
    using m assms(2) by (intro properties_for_sort) (simp_all add: newestFirst_sorted)
  ultimately have "rev (map stamp xs) = rev (map stamp ys)" by simp
  then show ?thesis by simp
qed

lemma newestFirst_unique:
  assumes "newestFirst xs" "newestFirst ys" "mset xs = mset ys" "distinct (map stamp xs)"
  shows "xs = ys"
proof -
  have "map stamp xs = map stamp ys" using assms(1-3) by (rule newestFirst_same_timestamps)
  moreover have "set ys = set xs" using assms(3) by (metis set_mset_mset)
  moreover have "inj_on stamp (set xs)" using assms(4) by (simp add: distinct_map)
  ultimately show ?thesis by (simp add: inj_on_map_eq_map)
qed

lemma mset_sinkLeft: "mset (sinkLeft lt x ys) = add_mset x (mset ys)"
  by (induction ys) simp_all

lemma set_sinkLeft: "set (sinkLeft lt x ys) = insert x (set ys)"
  by (induction ys) auto

lemma sorted_sinkLeft:
  "sorted (map stamp ys) \<Longrightarrow> sorted (map stamp (sinkLeft newerFirst x ys))"
  by (induction ys) (auto simp add: set_sinkLeft newerFirst_def)

lemma foldl_sinkLeft:
  "mset (foldl (\<lambda>left x. sinkLeft newerFirst x left) acc xs) = mset acc + mset xs
   \<and> (sorted (map stamp acc) \<longrightarrow> sorted (map stamp (foldl (\<lambda>left x. sinkLeft newerFirst x left) acc xs)))"
  by (induction xs arbitrary: acc) (simp_all add: mset_sinkLeft sorted_sinkLeft)

lemma insertionSort_sorts:
  "mset (insertionSort newerFirst xs) = mset xs \<and> newestFirst (insertionSort newerFirst xs)"
  using foldl_sinkLeft[of "[]" xs]
  by (simp add: insertionSort_def newestFirst_sorted rev_map)

lemma sortsMatches_sampleLib: "sortsMatches sampleLib"
  using insertionSort_sorts
  by (simp add: sortsMatches_def sampleLib_def newestFirst_alt)

lemma deliversAll_sampleWorld: "deliversAll sampleWorld"
  by (simp add: deliversAll_def sampleWorld_def)

lemma deliversAll_rev: "deliversAll (world\<lparr>arrival := rev\<rparr>)"
  by (simp add: deliversAll_def)

lemma findSessionFiles_no_error: "snd (findSessionFiles lib world searchPath maxDays) = None"
  by (simp add: findSessionFiles_def Let_def)

lemma findSessionFiles_arrival:
  "findSessionFiles lib (world\<lparr>arrival := arr\<rparr>) searchPath maxDays
     = findSessionFiles lib world searchPath maxDays"
  by (simp add: findSessionFiles_def)

lemma searchFileTracked_arrival:
  "searchFileTracked lib (world\<lparr>arrival := arr\<rparr>) fp re lits opts
     = searchFileTracked lib world fp re lits opts"
  by (simp add: searchFileTracked_def)

lemma allFileMatches_arrival:
  "allFileMatches lib (world\<lparr>arrival := arr\<rparr>) pattern searchPath opts
     = allFileMatches lib world pattern searchPath opts"
  by (simp add: allFileMatches_def findSessionFiles_arrival searchFileTracked_arrival
      split: option.splits)

lemma concat_nonempty: "concat (filter (\<lambda>xs. length xs > 0) xss) = concat xss"
  by (induction xss) simp_all

lemma mset_concat_mset: "mset xss = mset yss \<Longrightarrow> mset (concat xss) = mset (concat yss)"
  by (metis mset_concat mset_map sum_mset_sum_list)

lemma regexSearch_unfold:
  "regexSearch lib world pattern searchPath opts =
     (case regexpCompile lib (''(?i)'' @ pattern) of
        None \<Rightarrow> Inl CompileError
      | Some re \<Rightarrow>
         (let all = sortedMatches lib world pattern searchPath opts;
              stats = searchStats lib world pattern searchPath opts
          in if int (length all) > MaxResults opts
             then (if MaxResults opts < 0 then Inl SliceBoundsPanic
                   else Inr (take (nat (MaxResults opts)) all, stats))
             else Inr (all, stats)))"
proof (cases "regexpCompile lib (''(?i)'' @ pattern)")
  case None
  then show ?thesis by (simp add: regexSearch_def)
next
  case (Some re)
  obtain files where f: "findSessionFiles lib world searchPath (MaxDays opts) = (files, None)"
    using findSessionFiles_no_error[of lib world searchPath "MaxDays opts"]
    by (cases "findSessionFiles lib world searchPath (MaxDays opts)") auto
  show ?thesis
    using Some f by (simp add: regexSearch_def sortedMatches_def searchStats_def Let_def)
qed

lemma sortedMatches_mset:
  assumes "sortsMatches lib" "deliversAll world"
  shows "mset (sortedMatches lib world pattern searchPath opts)
           = mset (allFileMatches lib world pattern searchPath opts)
         \<and> newestFirst (sortedMatches lib world pattern searchPath opts)"
proof (cases "regexpCompile lib (''(?i)'' @ pattern)")
  case None
  then show ?thesis by (simp add: sortedMatches_def allFileMatches_def newestFirst_def)
next
  case (Some re)
  let ?per = "map (\<lambda>fp. fst (searchFileTracked lib world fp re
                 (extractPrefilterLiterals lib pattern) opts))
               (fst (findSessionFiles lib world searchPath (MaxDays opts)))"
  let ?sent = "filter (\<lambda>matches. length matches > 0) ?per"
  have "mset (arrival world ?sent) = mset ?sent"
    using assms(2) by (simp add: deliversAll_def)
  then have "mset (concat (arrival world ?sent)) = mset (concat ?sent)"
    by (rule mset_concat_mset)
  then have m: "mset (concat (arrival world ?sent)) = mset (concat ?per)"
    by (simp only: concat_nonempty)
  have s: "mset (sortSlice lib newerFirst (concat (arrival world ?sent))) = mset (concat (arrival world ?sent))
      \<and> newestFirst (sortSlice lib newerFirst (concat (arrival world ?sent)))"
    using assms(1) by (simp add: sortsMatches_def newestFirst_alt)
  show ?thesis
    using s m Some by (simp add: sortedMatches_def allFileMatches_def comp_def)
qed

section \<open>Searches on the sample machine\<close>

lemma run_deploy:
  "regexSearch sampleLib sampleWorld ''deploy'' ''/p/proj'' sampleOpts
   = Inr ([sampleMatch ''c'' ''2024-05-02T09:30:00'' ''deploy done'',
           sampleMatch ''a'' ''2024-05-01T10:00:00'' ''Deploy failed'',
           sampleMatch ''b'' ''2024-05-01T10:00:00'' ''deploy again''],
          \<lparr>FilesTotal = 4, PrefilterSkipped = 1, RegexSearched = 3\<rparr>)"
  by code_simp

lemma run_deploy_rev:
  "regexSearch sampleLib (sampleWorld\<lparr>arrival := rev\<rparr>) ''deploy'' ''/p/proj'' sampleOpts
   = Inr ([sampleMatch ''c'' ''2024-05-02T09:30:00'' ''deploy done'',
           sampleMatch ''b'' ''2024-05-01T10:00:00'' ''deploy again'',
           sampleMatch ''a'' ''2024-05-01T10:00:00'' ''Deploy failed''],
          \<lparr>FilesTotal = 4, PrefilterSkipped = 1, RegexSearched = 3\<rparr>)"
  by code_simp

lemma run_deploy_two:
  "regexSearch sampleLib sampleWorld ''deploy'' ''/p/proj'' (sampleOpts\<lparr>MaxResults := 2\<rparr>)
   = Inr ([sampleMatch ''c'' ''2024-05-02T09:30:00'' ''deploy done'',
           sampleMatch ''a'' ''2024-05-01T10:00:00'' ''Deploy failed''],
          \<lparr>FilesTotal = 4, PrefilterSkipped = 1, RegexSearched = 3\<rparr>)"
  by code_simp

lemma all_deploy:
  "allFileMatches sampleLib sampleWorld ''deploy'' ''/p/proj'' (sampleOpts\<lparr>MaxResults := 2\<rparr>)
   = [sampleMatch ''a'' ''2024-05-01T10:00:00'' ''Deploy failed'',
      sampleMatch ''b'' ''2024-05-01T10:00:00'' ''deploy again'',
      sampleMatch ''c'' ''2024-05-02T09:30:00'' ''deploy done'']"
  by code_simp

lemma run_quiet:
  "regexSearch sampleLib quietWorld ''deploy'' ''/p/proj'' sampleOpts
   = Inr ([sampleMatch ''c'' ''2024-05-02T09:30:00'' ''deploy done'',
           sampleMatch ''a'' ''2024-05-01T10:00:00'' ''Deploy failed''],
          \<lparr>FilesTotal = 4, PrefilterSkipped = 1, RegexSearched = 3\<rparr>)"
  by code_simp

lemma all_quiet:
  "allFileMatches sampleLib quietWorld ''deploy'' ''/p/proj'' sampleOpts
   = [sampleMatch ''a'' ''2024-05-01T10:00:00'' ''Deploy failed'',
      sampleMatch ''c'' ''2024-05-02T09:30:00'' ''deploy done'']"
  by code_simp

lemma run_errors:
  "regexSearch sampleLib sampleWorld ''errors?'' ''/p/proj'' sampleOpts
   = Inr ([], \<lparr>FilesTotal = 4, PrefilterSkipped = 4, RegexSearched = 0\<rparr>)"
  by code_simp

lemma search_errors_skipped:
  "searchFileTracked sampleLib sampleWorld ''/p/proj/e.jsonl'' matchesErrors [''errors''] sampleOpts
     = ([], True)"
  by code_simp

lemma search_errors_unfiltered:
  "searchFileTracked sampleLib sampleWorld ''/p/proj/e.jsonl'' matchesErrors [] sampleOpts
     = ([sampleMatch ''e'' ''2024-05-03T08:00:00'' ''an error occurred''], False)"
  by code_simp

lemma text_errors:
  "map Text (parseJSONL sampleLib ''/p/proj/e.jsonl'' (lineError @ [CHR 0x0A])) = [''an error occurred'']
   \<and> matchesErrors ''an error occurred''
   \<and> \<not> Contains (ToLower sampleLib (lineError @ [CHR 0x0A])) ''errors''"
  by code_simp

lemma deliversAll_quietWorld: "deliversAll quietWorld"
  by (simp add: deliversAll_def quietWorld_def sampleWorld_def)

section \<open>Sorting and cutting the merged matches (C6)\<close>

text \<open>
  C6. Whenever \<open>sort.Slice\<close> sorts and the channel delivers every result, a successful
  \<open>regexSearch\<close> with a positive \<open>MaxResults\<close> returns a list in non-increasing order of
  the timestamp strings (compared bytewise), of at most \<open>MaxResults\<close> matches; it is the
  front of a sorted list holding exactly the matches of all files, so the per-file lists
  are merged before the sort and the cut.
\<close>

theorem regexSearch_sorted_and_limited:
  assumes sorts: "sortsMatches lib"
    and delivers: "deliversAll world"
    and result: "regexSearch lib world pattern searchPath opts = Inr (matches, stats)"
    and positive: "MaxResults opts > 0"
  shows "newestFirst matches
     \<and> int (length matches) \<le> MaxResults opts
     \<and> (\<exists>merged. mset merged = mset (allFileMatches lib world pattern searchPath opts)
            \<and> newestFirst merged
            \<and> matches = take (nat (MaxResults opts)) merged)"
proof -
  let ?all = "sortedMatches lib world pattern searchPath opts"
  have all: "mset ?all = mset (allFileMatches lib world pattern searchPath opts)" "newestFirst ?all"
    using sortedMatches_mset[OF sorts delivers] by auto
  have cut: "matches = take (nat (MaxResults opts)) ?all"
    using result positive
    by (auto simp add: regexSearch_unfold Let_def split: option.splits if_splits)
  have "newestFirst matches"
    unfolding cut using all(2) by (rule newestFirst_take)
  moreover have "int (length matches) \<le> MaxResults opts"
    unfolding cut using positive by simp
  ultimately show ?thesis using all cut by blast
qed

text \<open>
  The sample machine, searched for \<open>deploy\<close> with at most two results: three files hold a
  match, the two newest come back.
\<close>

theorem regexSearch_sorted_and_limited_witness:
  "sortsMatches sampleLib \<and> deliversAll sampleWorld
   \<and> regexSearch sampleLib sampleWorld ''deploy'' ''/p/proj'' (sampleOpts\<lparr>MaxResults := 2\<rparr>)
       = Inr ([sampleMatch ''c'' ''2024-05-02T09:30:00'' ''deploy done'',
               sampleMatch ''a'' ''2024-05-01T10:00:00'' ''Deploy failed''],
              \<lparr>FilesTotal = 4, PrefilterSkipped = 1, RegexSearched = 3\<rparr>)
   \<and> length (allFileMatches sampleLib sampleWorld ''deploy'' ''/p/proj''
         (sampleOpts\<lparr>MaxResults := 2\<rparr>)) = 3
   \<and> newestFirst [sampleMatch ''c'' ''2024-05-02T09:30:00'' ''deploy done'',
                   sampleMatch ''a'' ''2024-05-01T10:00:00'' ''Deploy failed'']
   \<and> (\<exists>merged. mset merged = mset (allFileMatches sampleLib sampleWorld ''deploy'' ''/p/proj''
                                      (sampleOpts\<lparr>MaxResults := 2\<rparr>))
          \<and> newestFirst merged
          \<and> [sampleMatch ''c'' ''2024-05-02T09:30:00'' ''deploy done'',
              sampleMatch ''a'' ''2024-05-01T10:00:00'' ''Deploy failed''] = take 2 merged)"
proof -
  have positive: "MaxResults (sampleOpts\<lparr>MaxResults := 2\<rparr>) > 0"
    by (simp add: sampleOpts_def)
  have two: "nat (MaxResults (sampleOpts\<lparr>MaxResults := 2\<rparr>)) = 2"
    by (simp add: sampleOpts_def)
  have three: "length (allFileMatches sampleLib sampleWorld ''deploy'' ''/p/proj''
         (sampleOpts\<lparr>MaxResults := 2\<rparr>)) = 3"
    by (simp only: all_deploy) simp
  show ?thesis
    using regexSearch_sorted_and_limited
      [OF sortsMatches_sampleLib deliversAll_sampleWorld run_deploy_two positive]
      sortsMatches_sampleLib deliversAll_sampleWorld run_deploy_two three
    by (simp only: two)
qed

section \<open>The order of the result and the order of arrival (C2)\<close>

text \<open>
  C2, as the code has it. Whenever \<open>sort.Slice\<close> sorts and the channel delivers every
  result, a second run of a successful \<open>regexSearch\<close> on the same files, whose workers'
  results arrive in any other order \<open>arr\<close>, succeeds too, with the same statistics, the
  same number of matches and the same sequence of timestamps; and when no two matches
  found in the files share a timestamp, with the identical sequence of matches. Only the
  order among matches of equal timestamp depends on the order of arrival.
\<close>

theorem regexSearch_order_up_to_ties:
  assumes sorts: "sortsMatches lib"
    and delivers: "deliversAll world"
    and delivers': "deliversAll (world\<lparr>arrival := arr\<rparr>)"
    and result: "regexSearch lib world pattern searchPath opts = Inr (matches, stats)"
  shows "\<exists>matches'. regexSearch lib (world\<lparr>arrival := arr\<rparr>) pattern searchPath opts
              = Inr (matches', stats)
          \<and> length matches' = length matches
          \<and> map stamp matches' = map stamp matches
          \<and> (distinct (map stamp (allFileMatches lib world pattern searchPath opts))
               \<longrightarrow> matches' = matches)"
proof -
  let ?w = "world\<lparr>arrival := arr\<rparr>"
  let ?a = "sortedMatches lib world pattern searchPath opts"
  let ?b = "sortedMatches lib ?w pattern searchPath opts"
  have a: "mset ?a = mset (allFileMatches lib world pattern searchPath opts)" "newestFirst ?a"
    using sortedMatches_mset[OF sorts delivers] by auto
  have b: "mset ?b = mset (allFileMatches lib world pattern searchPath opts)" "newestFirst ?b"
    using sortedMatches_mset[OF sorts delivers', of pattern searchPath opts]
    by (auto simp add: allFileMatches_arrival)
  have ms: "mset ?b = mset ?a" using a(1) b(1) by simp
  have stamps: "map stamp ?b = map stamp ?a"
    using b(2) a(2) ms by (rule newestFirst_same_timestamps)
  have len: "length ?b = length ?a"
    using ms by (metis size_mset)
  have stats: "searchStats lib ?w pattern searchPath opts = searchStats lib world pattern searchPath opts"
    by (simp add: searchStats_def findSessionFiles_arrival searchFileTracked_arrival
        split: option.splits)
  obtain re where re: "regexpCompile lib (''(?i)'' @ pattern) = Some re"
    using result by (auto simp add: regexSearch_unfold split: option.splits)
  define cut where "cut = (\<lambda>xs :: Match list.
     if int (length ?a) > MaxResults opts then take (nat (MaxResults opts)) xs else xs)"
  have r1: "matches = cut ?a" "stats = searchStats lib world pattern searchPath opts"
       "\<not> (int (length ?a) > MaxResults opts \<and> MaxResults opts < 0)"
    using result re
    by (auto simp add: regexSearch_unfold cut_def Let_def split: if_splits)
  have r2: "regexSearch lib ?w pattern searchPath opts = Inr (cut ?b, stats)"
    using re r1(2,3) len stats
    by (auto simp add: regexSearch_unfold cut_def Let_def)
  have l: "length (cut ?b) = length matches"
    using len by (simp add: r1(1) cut_def)
  have "map stamp (take n ?b) = map stamp (take n ?a)" for n
    by (simp only: stamps flip: take_map)
  then have s: "map stamp (cut ?b) = map stamp matches"
    using stamps by (simp add: r1(1) cut_def)
  have d: "cut ?b = matches"
    if "distinct (map stamp (allFileMatches lib world pattern searchPath opts))"
  proof -
    have "distinct (map stamp ?b)"
      using that b(1) by (metis mset_map mset_eq_imp_distinct_iff)
    then have "?b = ?a" using b(2) a(2) ms by (intro newestFirst_unique)
    then show ?thesis by (simp add: r1(1))
  qed
  from r2 l s d show ?thesis by blast
qed

text \<open>
  C2 as stated fails on the sample machine. The transcripts \<open>a\<close> and \<open>b\<close> each hold a
  match of \<open>deploy\<close> with the timestamp \<open>2024-05-01T10:00:00\<close>. When the results arrive in
  file order the search returns the matches of \<open>c\<close>, \<open>a\<close>, \<open>b\<close>; when they arrive in the
  opposite order it returns those of \<open>c\<close>, \<open>b\<close>, \<open>a\<close>. Pattern, options and files are the
  same in both runs.
\<close>

theorem regexSearch_order_up_to_ties_counterexample:
  "sortsMatches sampleLib \<and> deliversAll sampleWorld \<and> deliversAll (sampleWorld\<lparr>arrival := rev\<rparr>)
   \<and> regexSearch sampleLib sampleWorld ''deploy'' ''/p/proj'' sampleOpts
       = Inr ([sampleMatch ''c'' ''2024-05-02T09:30:00'' ''deploy done'',
               sampleMatch ''a'' ''2024-05-01T10:00:00'' ''Deploy failed'',
               sampleMatch ''b'' ''2024-05-01T10:00:00'' ''deploy again''],
              \<lparr>FilesTotal = 4, PrefilterSkipped = 1, RegexSearched = 3\<rparr>)
   \<and> regexSearch sampleLib (sampleWorld\<lparr>arrival := rev\<rparr>) ''deploy'' ''/p/proj'' sampleOpts
       = Inr ([sampleMatch ''c'' ''2024-05-02T09:30:00'' ''deploy done'',
               sampleMatch ''b'' ''2024-05-01T10:00:00'' ''deploy again'',
               sampleMatch ''a'' ''2024-05-01T10:00:00'' ''Deploy failed''],
              \<lparr>FilesTotal = 4, PrefilterSkipped = 1, RegexSearched = 3\<rparr>)
   \<and> regexSearch sampleLib sampleWorld ''deploy'' ''/p/proj'' sampleOpts
       \<noteq> regexSearch sampleLib (sampleWorld\<lparr>arrival := rev\<rparr>) ''deploy'' ''/p/proj'' sampleOpts"
proof -
  have "sampleMatch ''a'' ''2024-05-01T10:00:00'' ''Deploy failed''
      \<noteq> sampleMatch ''b'' ''2024-05-01T10:00:00'' ''deploy again''"
    by (simp add: sampleMatch_def)
  then show ?thesis
    using sortsMatches_sampleLib deliversAll_sampleWorld deliversAll_rev[of sampleWorld]
    by (simp add: run_deploy run_deploy_rev)
qed

text \<open>
  The two runs above agree in statistics, length and timestamps; and on the machine that
  cannot read \<open>b\<close>, where the two matches found have different timestamps, both orders of
  arrival give the same result.
\<close>

theorem regexSearch_order_up_to_ties_witness:
  "sortsMatches sampleLib \<and> deliversAll sampleWorld \<and> deliversAll (sampleWorld\<lparr>arrival := rev\<rparr>)
   \<and> regexSearch sampleLib sampleWorld ''deploy'' ''/p/proj'' sampleOpts
       = Inr ([sampleMatch ''c'' ''2024-05-02T09:30:00'' ''deploy done'',
               sampleMatch ''a'' ''2024-05-01T10:00:00'' ''Deploy failed'',
               sampleMatch ''b'' ''2024-05-01T10:00:00'' ''deploy again''],
              \<lparr>FilesTotal = 4, PrefilterSkipped = 1, RegexSearched = 3\<rparr>)
   \<and> (\<exists>matches'. regexSearch sampleLib (sampleWorld\<lparr>arrival := rev\<rparr>) ''deploy'' ''/p/proj'' sampleOpts
           = Inr (matches', \<lparr>FilesTotal = 4, PrefilterSkipped = 1, RegexSearched = 3\<rparr>)
         \<and> length matches' = 3
         \<and> map stamp matches'
             = [''2024-05-02T09:30:00'', ''2024-05-01T10:00:00'', ''2024-05-01T10:00:00''])
   \<and> deliversAll quietWorld \<and> deliversAll (quietWorld\<lparr>arrival := rev\<rparr>)
   \<and> distinct (map stamp (allFileMatches sampleLib quietWorld ''deploy'' ''/p/proj'' sampleOpts))
   \<and> regexSearch sampleLib quietWorld ''deploy'' ''/p/proj'' sampleOpts
       = Inr ([sampleMatch ''c'' ''2024-05-02T09:30:00'' ''deploy done'',
               sampleMatch ''a'' ''2024-05-01T10:00:00'' ''Deploy failed''],
              \<lparr>FilesTotal = 4, PrefilterSkipped = 1, RegexSearched = 3\<rparr>)
   \<and> regexSearch sampleLib (quietWorld\<lparr>arrival := rev\<rparr>) ''deploy'' ''/p/proj'' sampleOpts
       = Inr ([sampleMatch ''c'' ''2024-05-02T09:30:00'' ''deploy done'',
               sampleMatch ''a'' ''2024-05-01T10:00:00'' ''Deploy failed''],
              \<lparr>FilesTotal = 4, PrefilterSkipped = 1, RegexSearched = 3\<rparr>)"
proof -
  have first: "\<exists>matches'. regexSearch sampleLib (sampleWorld\<lparr>arrival := rev\<rparr>) ''deploy'' ''/p/proj'' sampleOpts
           = Inr (matches', \<lparr>FilesTotal = 4, PrefilterSkipped = 1, RegexSearched = 3\<rparr>)
         \<and> length matches' = 3
         \<and> map stamp matches'
             = [''2024-05-02T09:30:00'', ''2024-05-01T10:00:00'', ''2024-05-01T10:00:00'']"
  proof -
    obtain matches' where m:
      "regexSearch sampleLib (sampleWorld\<lparr>arrival := rev\<rparr>) ''deploy'' ''/p/proj'' sampleOpts
         = Inr (matches', \<lparr>FilesTotal = 4, PrefilterSkipped = 1, RegexSearched = 3\<rparr>)"
      "length matches' = length [sampleMatch ''c'' ''2024-05-02T09:30:00'' ''deploy done'',
               sampleMatch ''a'' ''2024-05-01T10:00:00'' ''Deploy failed'',
               sampleMatch ''b'' ''2024-05-01T10:00:00'' ''deploy again'']"
      "map stamp matches' = map stamp [sampleMatch ''c'' ''2024-05-02T09:30:00'' ''deploy done'',
               sampleMatch ''a'' ''2024-05-01T10:00:00'' ''Deploy failed'',
               sampleMatch ''b'' ''2024-05-01T10:00:00'' ''deploy again'']"
      using regexSearch_order_up_to_ties
        [OF sortsMatches_sampleLib deliversAll_sampleWorld deliversAll_rev run_deploy]
      by blast
    have "length matches' = 3" using m(2) by simp
    moreover have "map stamp matches'
        = [''2024-05-02T09:30:00'', ''2024-05-01T10:00:00'', ''2024-05-01T10:00:00'']"
      using m(3) by (simp add: sampleMatch_def)
    ultimately show ?thesis using m(1) by (intro exI[of _ "matches'"]) simp
  qed
  have apart: "distinct (map stamp (allFileMatches sampleLib quietWorld ''deploy'' ''/p/proj'' sampleOpts))"
    by (simp add: all_quiet sampleMatch_def)
  have second: "regexSearch sampleLib (quietWorld\<lparr>arrival := rev\<rparr>) ''deploy'' ''/p/proj'' sampleOpts
       = Inr ([sampleMatch ''c'' ''2024-05-02T09:30:00'' ''deploy done'',
               sampleMatch ''a'' ''2024-05-01T10:00:00'' ''Deploy failed''],
              \<lparr>FilesTotal = 4, PrefilterSkipped = 1, RegexSearched = 3\<rparr>)"
    using regexSearch_order_up_to_ties
      [OF sortsMatches_sampleLib deliversAll_quietWorld deliversAll_rev run_quiet] apart
    by auto
  show ?thesis
    using first second apart sortsMatches_sampleLib deliversAll_sampleWorld deliversAll_quietWorld
      deliversAll_rev[of sampleWorld] deliversAll_rev[of quietWorld] run_deploy run_quiet
    by simp
qed

section \<open>The prefilter and what the pattern matches (C1)\<close>

text \<open>
  C1 on the sample machine. From the pattern \<open>errors?\<close> the code extracts the one literal
  \<open>errors\<close>. The transcript \<open>e.jsonl\<close> holds one message, \<open>an error occurred\<close>, which the
  compiled pattern matches; the file's lowercased content has no \<open>errors\<close>. The worker
  skips the file at the prefilter, and the search returns no match, all four files
  skipped; the same worker with the prefilter switched off returns the match. So the
  literal extracted is not one that occurs in every text the pattern matches.
\<close>

theorem prefilter_skips_matching_file:
  "extractPrefilterLiterals sampleLib ''errors?'' = [''errors'']
   \<and> regexpCompile sampleLib (''(?i)'' @ ''errors?'') = Some matchesErrors
   \<and> readFile sampleWorld ''/p/proj/e.jsonl'' = Some (lineError @ [CHR 0x0A])
   \<and> map Text (parseJSONL sampleLib ''/p/proj/e.jsonl'' (lineError @ [CHR 0x0A]))
       = [''an error occurred'']
   \<and> matchesErrors ''an error occurred''
   \<and> \<not> Contains (ToLower sampleLib (lineError @ [CHR 0x0A])) ''errors''
   \<and> searchFileTracked sampleLib sampleWorld ''/p/proj/e.jsonl'' matchesErrors
        (extractPrefilterLiterals sampleLib ''errors?'') sampleOpts = ([], True)
   \<and> searchFileTracked sampleLib sampleWorld ''/p/proj/e.jsonl'' matchesErrors [] sampleOpts
       = ([sampleMatch ''e'' ''2024-05-03T08:00:00'' ''an error occurred''], False)
   \<and> regexSearch sampleLib sampleWorld ''errors?'' ''/p/proj'' sampleOpts
       = Inr ([], \<lparr>FilesTotal = 4, PrefilterSkipped = 4, RegexSearched = 0\<rparr>)"
proof -
  have "regexpCompile sampleLib (''(?i)'' @ ''errors?'') = Some matchesErrors"
    by (simp add: sampleLib_def)
  moreover have "readFile sampleWorld ''/p/proj/e.jsonl'' = Some (lineError @ [CHR 0x0A])"
    by (simp add: sampleWorld_def)
  ultimately show ?thesis
    using text_errors search_errors_skipped search_errors_unfiltered run_errors
    by (simp only: literals_errors) simp
qed

section \<open>A branch the splitter does not see (C4)\<close>

lemma literals_class: "extractPrefilterLiterals sampleLib ''x[(]|.*'' = [''x'']"
  by code_simp

lemma parts_class:
  "stripOuterGroup ''x[(]|.*'' = ''x[(]|.*''
   \<and> splitTopLevelPipe ''x[(]|.*'' = [''x[(]|.*'']
   \<and> longestLiteral (Trim ''x[(]|.*'' ''()'') = ''x''
   \<and> longestLiteral (Trim ''.*'' ''()'') = []"
  by code_simp

lemma search_class_skipped:
  "\<not> prefilterMatch sampleLib (lineDeployA @ [CHR 0x0A]) [''x'']
   \<and> searchFileTracked sampleLib sampleWorld ''/p/proj/a.jsonl'' matchesAll [''x''] sampleOpts
       = ([], True)"
  by code_simp

lemma search_class_unfiltered:
  "matchesAll ''Deploy failed''
   \<and> searchFileTracked sampleLib sampleWorld ''/p/proj/a.jsonl'' matchesAll [] sampleOpts
       = ([sampleMatch ''a'' ''2024-05-01T10:00:00'' ''Deploy failed''], False)"
  by code_simp

lemma run_class:
  "regexSearch sampleLib sampleWorld ''x[(]|.*'' ''/p/proj'' sampleOpts
   = Inr ([], \<lparr>FilesTotal = 4, PrefilterSkipped = 4, RegexSearched = 0\<rparr>)"
  by code_simp

text \<open>
  C4 on the pattern \<open>x[(]|.*\<close>. Its alternation has two branches at top level, \<open>x[(]\<close>
  (an \<open>x\<close>, then an opening parenthesis written as a character class) and \<open>.*\<close>, which
  has no literal and matches every text. \<open>splitTopLevelPipe\<close> counts the parenthesis in
  the class as the opening of a group, so it never sees the \<open>|\<close> at depth 0 and returns
  the whole pattern as its one part; \<open>longestLiteral\<close> finds \<open>x\<close> in it, and
  \<open>extractPrefilterLiterals\<close> returns the literal \<open>x\<close> alone, a set that covers the first
  branch only. The transcript \<open>a.jsonl\<close> has no \<open>x\<close>: the worker skips it at the prefilter
  although the pattern matches its message, and the search of the four sample
  transcripts, none of which has an \<open>x\<close>, skips them all and returns nothing.
\<close>

theorem class_paren_hides_weak_branch:
  "stripOuterGroup ''x[(]|.*'' = ''x[(]|.*''
   \<and> splitTopLevelPipe ''x[(]|.*'' = [''x[(]|.*'']
   \<and> longestLiteral (Trim ''.*'' ''()'') = []
   \<and> extractPrefilterLiterals sampleLib ''x[(]|.*'' = [''x'']
   \<and> regexpCompile sampleLib (''(?i)'' @ ''x[(]|.*'') = Some matchesAll
   \<and> matchesAll ''Deploy failed''
   \<and> \<not> prefilterMatch sampleLib (lineDeployA @ [CHR 0x0A])
         (extractPrefilterLiterals sampleLib ''x[(]|.*'')
   \<and> searchFileTracked sampleLib sampleWorld ''/p/proj/a.jsonl'' matchesAll
        (extractPrefilterLiterals sampleLib ''x[(]|.*'') sampleOpts = ([], True)
   \<and> searchFileTracked sampleLib sampleWorld ''/p/proj/a.jsonl'' matchesAll [] sampleOpts
       = ([sampleMatch ''a'' ''2024-05-01T10:00:00'' ''Deploy failed''], False)
   \<and> regexSearch sampleLib sampleWorld ''x[(]|.*'' ''/p/proj'' sampleOpts
       = Inr ([], \<lparr>FilesTotal = 4, PrefilterSkipped = 4, RegexSearched = 0\<rparr>)"
proof -
  have "regexpCompile sampleLib (''(?i)'' @ ''x[(]|.*'') = Some matchesAll"
    by (simp add: sampleLib_def)
  then show ?thesis
    using parts_class search_class_skipped search_class_unfiltered run_class
    by (simp only: literals_class) simp
qed

text \<open>
  In short: one part, one literal, a message the unfiltered worker finds, and no file in
  the result of the search.
\<close>

theorem class_paren_hides_weak_branch_witness:
  "length (splitTopLevelPipe (stripOuterGroup ''x[(]|.*'')) = 1
   \<and> length (extractPrefilterLiterals sampleLib ''x[(]|.*'') = 1
   \<and> map (\<lambda>m. Text (Message m))
        (fst (searchFileTracked sampleLib sampleWorld ''/p/proj/a.jsonl'' matchesAll [] sampleOpts))
       = [''Deploy failed'']
   \<and> resultFiles (regexSearch sampleLib sampleWorld ''x[(]|.*'' ''/p/proj'' sampleOpts) = []"
  using class_paren_hides_weak_branch by (simp add: resultFiles_def sampleMatch_def)

section \<open>Loading a stored index (C7)\<close>

text \<open>
  C7. \<open>loadIndex\<close> always returns an index. When the file of the project cannot be opened,
  or the decoder reports an error, the result is the empty index of the project: no
  entries, an initialized empty \<open>Files\<close> map, the given project name; whatever a failed
  decode has written is dropped. When the decoder reports no error, the result is the
  index it decoded. In every case the \<open>Files\<close> map of the result is initialized, \<open>gob\<close>
  never setting a map to nil.
\<close>

theorem loadIndex_falls_back_to_empty:
  "(readFile world (indexPath lib world project) = None
      \<longrightarrow> loadIndex lib world project = emptyIndex project)
   \<and> (\<forall>stored partial. readFile world (indexPath lib world project) = Some stored
         \<and> gobDecode lib stored (emptyIndex project) = (True, partial)
      \<longrightarrow> loadIndex lib world project = emptyIndex project)
   \<and> (\<forall>stored decoded. readFile world (indexPath lib world project) = Some stored
         \<and> gobDecode lib stored (emptyIndex project) = (False, decoded)
      \<longrightarrow> loadIndex lib world project = decoded)
   \<and> Entries (emptyIndex project) = [] \<and> Files (emptyIndex project) = Some Map.empty
   \<and> Index.Project (emptyIndex project) = project
   \<and> (decodeKeepsMap lib \<longrightarrow> Files (loadIndex lib world project) \<noteq> None)"
proof -
  have keeps: "Files (loadIndex lib world project) \<noteq> None" if k: "decodeKeepsMap lib"
  proof (cases "readFile world (indexPath lib world project)")
    case None
    then show ?thesis by (simp add: loadIndex_def emptyIndex_def)
  next
    case (Some stored)
    have "Files (snd (gobDecode lib stored (emptyIndex project))) \<noteq> None"
      using k by (simp add: decodeKeepsMap_def emptyIndex_def)
    then show ?thesis
      using Some
      by (cases "gobDecode lib stored (emptyIndex project)")
         (auto simp add: loadIndex_def emptyIndex_def split: bool.splits)
  qed
  have "Entries (emptyIndex project) = [] \<and> Files (emptyIndex project) = Some Map.empty
     \<and> Index.Project (emptyIndex project) = project"
    by (simp add: emptyIndex_def)
  moreover have "readFile world (indexPath lib world project) = None
      \<longrightarrow> loadIndex lib world project = emptyIndex project"
    by (simp add: loadIndex_def)
  moreover have "\<forall>stored partial. readFile world (indexPath lib world project) = Some stored
         \<and> gobDecode lib stored (emptyIndex project) = (True, partial)
      \<longrightarrow> loadIndex lib world project = emptyIndex project"
    by (simp add: loadIndex_def)
  moreover have "\<forall>stored decoded. readFile world (indexPath lib world project) = Some stored
         \<and> gobDecode lib stored (emptyIndex project) = (False, decoded)
      \<longrightarrow> loadIndex lib world project = decoded"
    by (simp add: loadIndex_def)
  ultimately show ?thesis using keeps by blast
qed

lemma indexPath_sample:
  "indexPath sampleLib sampleWorld ''proj'' = ''/home/u/.claude/search-index/proj.gob''
   \<and> indexPath sampleLib sampleWorld ''old'' = ''/home/u/.claude/search-index/old.gob''
   \<and> indexPath sampleLib sampleWorld ''none'' = ''/home/u/.claude/search-index/none.gob''"
  by (simp add: indexPath_def indexDir_def sampleLib_def sampleWorld_def)

lemma decodeKeepsMap_sampleLib: "decodeKeepsMap sampleLib"
  by (simp add: decodeKeepsMap_def sampleLib_def)

text \<open>
  The sample machine stores an index that decodes for the project \<open>proj\<close>, one that fails
  to decode, after the decoder has written an entry and the project name, for \<open>old\<close>, and
  none for \<open>none\<close>.
\<close>

theorem loadIndex_falls_back_to_empty_witness:
  "readFile sampleWorld (indexPath sampleLib sampleWorld ''none'') = None
   \<and> loadIndex sampleLib sampleWorld ''none'' = emptyIndex ''none''
   \<and> readFile sampleWorld (indexPath sampleLib sampleWorld ''old'') = Some ''damaged''
   \<and> gobDecode sampleLib ''damaged'' (emptyIndex ''old'')
       = (True, \<lparr>Entries = [sampleEntry], Files = Some Map.empty, Index.Project = []\<rparr>)
   \<and> loadIndex sampleLib sampleWorld ''old'' = emptyIndex ''old''
   \<and> readFile sampleWorld (indexPath sampleLib sampleWorld ''proj'') = Some ''good''
   \<and> gobDecode sampleLib ''good'' (emptyIndex ''proj'')
       = (False, \<lparr>Entries = [sampleEntry], Files = Some Map.empty, Index.Project = ''proj''\<rparr>)
   \<and> loadIndex sampleLib sampleWorld ''proj''
       = \<lparr>Entries = [sampleEntry], Files = Some Map.empty, Index.Project = ''proj''\<rparr>
   \<and> decodeKeepsMap sampleLib
   \<and> Files (loadIndex sampleLib sampleWorld ''proj'') \<noteq> None"
proof -
  have none: "readFile sampleWorld (indexPath sampleLib sampleWorld ''none'') = None"
    by (simp add: indexPath_sample) (simp add: sampleWorld_def)
  have old: "readFile sampleWorld (indexPath sampleLib sampleWorld ''old'') = Some ''damaged''"
    by (simp add: indexPath_sample) (simp add: sampleWorld_def)
  have proj: "readFile sampleWorld (indexPath sampleLib sampleWorld ''proj'') = Some ''good''"
    by (simp add: indexPath_sample) (simp add: sampleWorld_def)
  have damaged: "gobDecode sampleLib ''damaged'' (emptyIndex ''old'')
       = (True, \<lparr>Entries = [sampleEntry], Files = Some Map.empty, Index.Project = []\<rparr>)"
    by (simp add: sampleLib_def emptyIndex_def)
  have good: "gobDecode sampleLib ''good'' (emptyIndex ''proj'')
       = (False, \<lparr>Entries = [sampleEntry], Files = Some Map.empty, Index.Project = ''proj''\<rparr>)"
    by (simp add: sampleLib_def emptyIndex_def)
  show ?thesis
    using loadIndex_falls_back_to_empty[of sampleWorld sampleLib "''none''"]
      loadIndex_falls_back_to_empty[of sampleWorld sampleLib "''old''"]
      loadIndex_falls_back_to_empty[of sampleWorld sampleLib "''proj''"]
      none old proj damaged good decodeKeepsMap_sampleLib
    by auto
qed

end
